theory Spec2Isabelle
  imports Complex_Main
begin

section \<open>Circuits as data\<close>

text \<open>
  The program describes circuits through the builder interface of its circuit library:
  a circuit has a number of qubits, a number of classical bits and an ordered sequence
  of operations, and every builder call appends one operation. A qubit \<open>qr[i]\<close> and a
  classical bit \<open>cr[j]\<close> are their indices.
\<close>

datatype gate =
    X nat
  | H nat
  | CX nat nat
  | CCX nat nat nat
  | Reset nat
  | Measure nat nat

record circuit =
  num_qubits :: nat
  num_clbits :: nat
  ops :: "gate list"

definition QuantumCircuit :: "nat \<Rightarrow> nat \<Rightarrow> circuit" where
  "QuantumCircuit qr cr = \<lparr>num_qubits = qr, num_clbits = cr, ops = []\<rparr>"

definition append_op :: "gate \<Rightarrow> circuit \<Rightarrow> circuit" where
  "append_op g qc = qc\<lparr>ops := ops qc @ [g]\<rparr>"

text \<open>\<open>a.compose(b)\<close>: a new circuit on the registers of \<open>a\<close>, the operations of \<open>a\<close>
  followed by those of \<open>b\<close>. The library requires the registers of \<open>b\<close> to fit into
  those of \<open>a\<close>; \<open>fits\<close> is that requirement.\<close>

definition compose :: "circuit \<Rightarrow> circuit \<Rightarrow> circuit" where
  "compose a b = a\<lparr>ops := ops a @ ops b\<rparr>"

definition fits :: "circuit \<Rightarrow> circuit \<Rightarrow> bool" where
  "fits a b \<longleftrightarrow> num_qubits b \<le> num_qubits a \<and> num_clbits b \<le> num_clbits a"

text \<open>\<open>qc.h([q0, q1, q2])\<close> and \<open>qc.measure([...], range(5))\<close> broadcast over their
  argument lists, in order.\<close>

definition h_list :: "nat list \<Rightarrow> circuit \<Rightarrow> circuit" where
  "h_list qs qc = fold (\<lambda>q. append_op (H q)) qs qc"

definition measure_list :: "nat list \<Rightarrow> nat list \<Rightarrow> circuit \<Rightarrow> circuit" where
  "measure_list qs cs qc = fold (\<lambda>(q, c). append_op (Measure q c)) (zip qs cs) qc"

text \<open>The qubits an operation acts on.\<close>

fun gate_qubits :: "gate \<Rightarrow> nat list" where
  "gate_qubits (X t) = [t]"
| "gate_qubits (H t) = [t]"
| "gate_qubits (CX c t) = [c, t]"
| "gate_qubits (CCX c1 c2 t) = [c1, c2, t]"
| "gate_qubits (Reset t) = [t]"
| "gate_qubits (Measure q c) = [q]"

section \<open>The kill rule and its circuit\<close>

text \<open>Python's \<open>a or b\<close> on integers returns \<open>a\<close> when \<open>a\<close> is truthy (nonzero) and
  \<open>b\<close> otherwise; \<open>int\<close> of an integer is that integer.\<close>

definition py_or :: "int \<Rightarrow> int \<Rightarrow> int" where
  "py_or a b = (if a \<noteq> 0 then a else b)"

definition kill_rule_classical :: "int \<Rightarrow> int \<Rightarrow> int \<Rightarrow> int" where
  "kill_rule_classical mutation timer geosense = py_or (py_or mutation timer) geosense"

text \<open>\<open>build_reversible_kill_circuit\<close> returns the circuit together with its quantum
  register (5 qubits) and its classical register (1 bit).\<close>

definition build_reversible_kill_circuit :: "circuit \<times> nat \<times> nat" where
  "build_reversible_kill_circuit =
    (let qr = 5; cr = 1;
         qc = QuantumCircuit qr cr;
         qc = append_op (Reset 4) qc;
         qc = append_op (CX 0 4) qc;
         qc = append_op (CX 1 4) qc;
         qc = append_op (CX 2 4) qc;
         qc = append_op (CCX 0 1 4) qc;
         qc = append_op (CCX 0 2 4) qc;
         qc = append_op (CCX 1 2 4) qc
     in (qc, qr, cr))"

section \<open>Exceptions\<close>

text \<open>The exceptions that end a call: those the simulator reports for a circuit or a
  shot count it refuses, Python's own, the noise library's \<open>NoiseError\<close>, and those of
  the file system.\<close>

datatype error =
    InvalidOperand
  | DuplicateMeasurement
  | InvalidShotCount
  | IndexError
  | ZeroDivisionError
  | NoiseError
  | FileNotFoundError
  | FileExistsError
  | NotADirectoryError
  | IsADirectoryError

section \<open>The noise model\<close>

text \<open>The noise library's error objects are data: a depolarizing error carries its
  parameter and its number of qubits, a readout error its assignment-probability matrix
  and its number of qubits. A noise model keeps the errors attached to all qubits, by
  instruction name, and at most one readout error attached to all qubits. (The
  instruction names the program registers are pairwise distinct, so no two errors are
  ever combined.) Python's floats are modelled by the reals: \<open>p2 * 1.5\<close> is the exact
  product, and a rate is zero only when it is exactly 0.\<close>

datatype quantum_error = Depolarizing real nat

datatype readout_error = Readout "real list list" nat

record noise_model =
  default_quantum_errors :: "(string \<times> quantum_error) list"
  default_readout_error :: "readout_error option"

definition NoiseModel :: noise_model where
  "NoiseModel = \<lparr>default_quantum_errors = [], default_readout_error = None\<rparr>"

text \<open>The library validates what it is given. \<open>depolarizing_error(param, num_qubits)\<close>
  raises \<open>NoiseError\<close> unless the number of qubits is positive and
  \<open>0 \<le> param \<le> 4^n / (4^n - 1)\<close>.\<close>

definition depolarizing_error :: "real \<Rightarrow> nat \<Rightarrow> error + quantum_error" where
  "depolarizing_error param n_qubits =
    (if n_qubits < 1 then Inl NoiseError
     else
       let num_terms = 4 ^ n_qubits;
           max_param = num_terms / (num_terms - 1)
       in if param < 0 then Inl NoiseError
          else if param > max_param then Inl NoiseError
          else Inr (Depolarizing param n_qubits))"

text \<open>\<open>ReadoutError(probabilities)\<close> checks its matrix: it is a square matrix whose
  size is a power of two, and every row sums to 1 up to the tolerance \<open>1e-8\<close> and has
  no negative entry; otherwise it raises \<open>NoiseError\<close>. The number of qubits is the
  logarithm of the size.\<close>

definition atol :: real where
  "atol = 1 / 10 ^ 8"

definition valid_row :: "nat \<Rightarrow> real list \<Rightarrow> bool" where
  "valid_row num_outcomes vec \<longleftrightarrow>
     length vec = num_outcomes \<and> \<bar>sum_list vec - 1\<bar> \<le> atol \<and> list_all (\<lambda>p. 0 \<le> p) vec"

definition ReadoutError :: "real list list \<Rightarrow> error + readout_error" where
  "ReadoutError probabilities =
    (if probabilities = [] then Inl NoiseError
     else
       let num_outcomes = length (hd probabilities) in
       case find (\<lambda>n_qubits. 2 ^ n_qubits = num_outcomes) [0 ..< num_outcomes] of
         None \<Rightarrow> Inl NoiseError
       | Some n_qubits \<Rightarrow>
          if length probabilities = num_outcomes
             \<and> list_all (valid_row num_outcomes) probabilities
          then Inr (Readout probabilities n_qubits)
          else Inl NoiseError)"

text \<open>An error is ideal when it does nothing: a depolarizing error with parameter 0 (all
  the weight on the identity), a readout error whose matrix is the identity.\<close>

fun ideal :: "quantum_error \<Rightarrow> bool" where
  "ideal (Depolarizing param n_qubits) = (param = 0)"

definition eye :: "nat \<Rightarrow> real list list" where
  "eye k = map (\<lambda>i. map (\<lambda>j. if i = j then 1 else 0) [0 ..< k]) [0 ..< k]"

fun ideal_readout :: "readout_error \<Rightarrow> bool" where
  "ideal_readout (Readout probabilities n_qubits) =
     (probabilities = eye (length probabilities))"

fun num_qubits_of :: "quantum_error \<Rightarrow> nat" where
  "num_qubits_of (Depolarizing param n_qubits) = n_qubits"

fun number_of_qubits :: "readout_error \<Rightarrow> nat" where
  "number_of_qubits (Readout probabilities n_qubits) = n_qubits"

text \<open>The number of qubits the library knows for the instruction names of the program;
  an error for one of them must have that many qubits.\<close>

definition instruction_qubits :: "string \<Rightarrow> nat option" where
  "instruction_qubits name =
    (if name \<in> set [''u1'', ''u2'', ''u3'', ''x'', ''h''] then Some 1
     else if name = ''cx'' then Some 2
     else if name = ''ccx'' then Some 3
     else None)"

text \<open>\<open>add_all_qubit_quantum_error(error, instructions)\<close> returns at once, attaching
  nothing, when the error is ideal. Otherwise it registers the error for every name in
  turn, raising \<open>NoiseError\<close> at a name whose number of qubits differs from the error's.\<close>

fun add_errors :: "quantum_error \<Rightarrow> string list \<Rightarrow> noise_model \<Rightarrow> error + noise_model" where
  "add_errors err [] nm = Inr nm"
| "add_errors err (name # rest) nm =
    (case instruction_qubits name of
       None \<Rightarrow>
         add_errors err rest
           (nm\<lparr>default_quantum_errors := default_quantum_errors nm @ [(name, err)]\<rparr>)
     | Some gate_arity \<Rightarrow>
         if num_qubits_of err = gate_arity
         then add_errors err rest
                (nm\<lparr>default_quantum_errors := default_quantum_errors nm @ [(name, err)]\<rparr>)
         else Inl NoiseError)"

definition add_all_qubit_quantum_error ::
  "quantum_error \<Rightarrow> string list \<Rightarrow> noise_model \<Rightarrow> error + noise_model" where
  "add_all_qubit_quantum_error err instructions nm =
     (if ideal err then Inr nm else add_errors err instructions nm)"

text \<open>\<open>add_all_qubit_readout_error(error)\<close> returns at once when the error is ideal, and
  raises \<open>NoiseError\<close> for an error on more than one qubit.\<close>

definition add_all_qubit_readout_error ::
  "readout_error \<Rightarrow> noise_model \<Rightarrow> error + noise_model" where
  "add_all_qubit_readout_error err nm =
     (if ideal_readout err then Inr nm
      else if number_of_qubits err = 1 then Inr (nm\<lparr>default_readout_error := Some err\<rparr>)
      else Inl NoiseError)"

text \<open>\<open>build_simple_noise_model\<close>: every call of the library can raise, which ends the
  function; the calls are made in the order of the source.\<close>

definition build_simple_noise_model :: "real \<Rightarrow> real \<Rightarrow> real \<Rightarrow> error + noise_model" where
  "build_simple_noise_model p1 p2 readout_err =
    (let noise_model = NoiseModel in
     case depolarizing_error p1 1 of Inl e \<Rightarrow> Inl e | Inr err1 \<Rightarrow>
    (case add_all_qubit_quantum_error err1 [''u1'', ''u2'', ''u3'', ''x'', ''h''] noise_model
     of Inl e \<Rightarrow> Inl e | Inr noise_model \<Rightarrow>
    (case depolarizing_error p2 2 of Inl e \<Rightarrow> Inl e | Inr err2 \<Rightarrow>
    (case add_all_qubit_quantum_error err2 [''cx''] noise_model
     of Inl e \<Rightarrow> Inl e | Inr noise_model \<Rightarrow>
    (case depolarizing_error (p2 * 1.5) 3 of Inl e \<Rightarrow> Inl e | Inr err3 \<Rightarrow>
    (case add_all_qubit_quantum_error err3 [''ccx''] noise_model
     of Inl e \<Rightarrow> Inl e | Inr noise_model \<Rightarrow>
    (case ReadoutError [[1 - readout_err, readout_err], [readout_err, 1 - readout_err]]
     of Inl e \<Rightarrow> Inl e | Inr readout \<Rightarrow>
    (case add_all_qubit_readout_error readout noise_model
     of Inl e \<Rightarrow> Inl e | Inr noise_model \<Rightarrow> Inr noise_model))))))))"

section \<open>Plotting\<close>

text \<open>\<open>plot_counts\<close> only has effects: calls of the plotting library, of \<open>os\<close> and of
  \<open>print\<close>. The model returns them in the order the function performs them. The
  argument \<open>counts_dict\<close> is a dictionary (an association list, in insertion order) or
  Python's \<open>None\<close>.\<close>

type_synonym counts = "(string \<times> nat) list"

text \<open>One row of the truth table (one dictionary appended to \<open>rows\<close>).\<close>

record row =
  Mutation :: int
  Timer :: int
  Geosensing :: int
  Quantum_Prob_Kill :: real
  Classical_Kill :: int

datatype effect =
    Print string
  | PrintTable "row list"
  | PrintSample counts
  | plt_figure
  | plt_bar "nat list" "nat list" "string list"
  | plt_xticks
  | plt_title string
  | plt_xlabel string
  | plt_ylabel string
  | plt_tight_layout
  | plt_show
  | os_makedirs string bool
  | plt_savefig string

text \<open>\<open>s.replace(a, b)\<close> for single characters \<open>a\<close> and \<open>b\<close>.\<close>

definition replace :: "char \<Rightarrow> char \<Rightarrow> string \<Rightarrow> string" where
  "replace a b s = map (\<lambda>c. if c = a then b else c) s"

text \<open>Truthiness of the argument: \<open>None\<close> and the empty dictionary are falsy.\<close>

fun truthy :: "counts option \<Rightarrow> bool" where
  "truthy None = False"
| "truthy (Some d) = (d \<noteq> [])"

text \<open>The two calls of \<open>plot_counts\<close> that touch the file system, \<open>os.makedirs(name,
  exist_ok=...)\<close> and \<open>plt.savefig(fname)\<close>, can raise. What they do depends on the file
  system the program runs in, which is a parameter: each maps the state \<open>'w\<close> of the file
  system to the exception it raises, if any, and the new state.\<close>

record 'w os_env =
  makedirs :: "string \<Rightarrow> bool \<Rightarrow> 'w \<Rightarrow> error option \<times> 'w"
  savefig :: "string \<Rightarrow> 'w \<Rightarrow> error option \<times> 'w"

text \<open>The result of \<open>plot_counts\<close>: the calls made, in order, the exception that ended it
  (if any), and the state of the file system. An exception of \<open>os.makedirs\<close> or of
  \<open>plt.savefig\<close> ends the function: nothing after the raising call is performed.\<close>

definition plot_counts ::
  "'w os_env \<Rightarrow> counts option \<Rightarrow> string \<Rightarrow> bool \<Rightarrow> 'w \<Rightarrow> (effect list \<times> error option) \<times> 'w" where
  "plot_counts env counts_dict title save w =
    (if \<not> truthy counts_dict then (([Print (''No data to plot for '' @ title)], None), w)
     else
       let labels = map fst (the counts_dict);
           vals = map snd (the counts_dict);
           out = [plt_figure,
                  plt_bar [0 ..< length labels] vals labels,
                  plt_xticks,
                  plt_title title,
                  plt_xlabel ''Output state (bitstring)'',
                  plt_ylabel ''Counts'',
                  plt_tight_layout,
                  plt_show]
       in if save
          then
            (let out = out @ [os_makedirs ''plots'' True] in
             case makedirs env ''plots'' True w of
               (Some e, w1) \<Rightarrow> ((out, Some e), w1)
             | (None, w1) \<Rightarrow>
                (let out = out @ [plt_savefig (''plots/'' @ replace CHR '' '' CHR ''_'' title
                                               @ ''.png'')]
                 in case savefig env (''plots/'' @ replace CHR '' '' CHR ''_'' title @ ''.png'')
                           w1 of
                      (Some e, w2) \<Rightarrow> ((out, Some e), w2)
                    | (None, w2) \<Rightarrow>
                        ((out @ [Print (''Saved: plots/''
                                        @ replace CHR '' '' CHR ''_'' title @ ''.png'')],
                          None), w2)))
          else ((out, None), w))"

section \<open>The simulator interface and the drivers\<close>

text \<open>The program hands circuits to the simulator of its library through
  \<open>backend.run(circuit, shots=..., noise_model=...)\<close>. A call is recorded with every
  keyword the interface offers for the run: the shots, the noise model and the seed of
  the simulator; a keyword the program omits has the library's default \<open>None\<close>.
  The simulator itself is a parameter of the drivers: it maps a call and its own
  (random) state to counts or an error, and a new state.\<close>

record run_call =
  rc_circuit :: circuit
  rc_shots :: nat
  rc_noise_model :: "noise_model option"
  rc_seed_simulator :: "nat option"

type_synonym 's backend = "run_call \<Rightarrow> 's \<Rightarrow> (error + counts) \<times> 's"

text \<open>\<open>transpile(full, backend)\<close> rewrites a circuit for the simulator without changing
  what it computes; the simulator runs every operation of the program's circuits
  natively, and the model keeps the circuit as it is.\<close>

definition transpile :: "circuit \<Rightarrow> circuit" where
  "transpile qc = qc"

text \<open>\<open>product([0, 1], repeat=3)\<close>.\<close>

definition product3 :: "'a list \<Rightarrow> ('a \<times> 'a \<times> 'a) list" where
  "product3 xs = concat (map (\<lambda>a. concat (map (\<lambda>b. map (\<lambda>c. (a, b, c)) xs) xs)) xs)"

text \<open>The circuit of one iteration of \<open>evaluate_truth_table_quantum\<close>: the preparation,
  composed with the kill circuit, and the measurement of qubit 4 into classical bit 0.\<close>

definition truth_table_circuit :: "int \<times> int \<times> int \<Rightarrow> circuit" where
  "truth_table_circuit = (\<lambda>(mutation, timer, geosense).
     let (qc_base, qr, cr) = build_reversible_kill_circuit;
         qc = qc_base;
         prep = QuantumCircuit qr cr;
         prep = (if mutation \<noteq> 0 then append_op (X 0) prep else prep);
         prep = (if timer \<noteq> 0 then append_op (X 1) prep else prep);
         prep = (if geosense \<noteq> 0 then append_op (X 2) prep else prep);
         full = compose prep qc;
         full = append_op (Measure 4 0) full
     in full)"

definition truth_table_call :: "int \<times> int \<times> int \<Rightarrow> run_call" where
  "truth_table_call inp =
     \<lparr>rc_circuit = transpile (truth_table_circuit inp), rc_shots = 1024,
      rc_noise_model = None, rc_seed_simulator = None\<rparr>"

text \<open>\<open>bitstring[0] == "1"\<close> raises \<open>IndexError\<close> on an empty key; the division raises
  \<open>ZeroDivisionError\<close> when the counts sum to zero. The quotient of two Python integers
  is a float; the model takes the exact quotient.\<close>

fun first_is_one :: "string \<Rightarrow> bool" where
  "first_is_one [] = False"
| "first_is_one (c # cs) = (c = CHR ''1'')"

definition prob_kill_of :: "counts \<Rightarrow> error + real" where
  "prob_kill_of cnts =
    (let total_shots = sum_list (map snd cnts) in
     if list_ex (\<lambda>(bitstring, cnt). bitstring = []) cnts then Inl IndexError
     else if total_shots = 0 then Inl ZeroDivisionError
     else Inr (real (sum_list (map snd (filter (\<lambda>(bitstring, cnt). first_is_one bitstring) cnts)))
               / real total_shots))"

definition make_row :: "int \<times> int \<times> int \<Rightarrow> real \<Rightarrow> row" where
  "make_row = (\<lambda>(mutation, timer, geosense) prob_kill.
     \<lparr>Mutation = mutation, Timer = timer, Geosensing = geosense,
      Quantum_Prob_Kill = prob_kill,
      Classical_Kill = kill_rule_classical mutation timer geosense\<rparr>)"

fun truth_table_loop ::
  "'s backend \<Rightarrow> (int \<times> int \<times> int) list \<Rightarrow> row list \<Rightarrow> 's \<Rightarrow> (error + row list) \<times> 's" where
  "truth_table_loop backend [] rows s = (Inr rows, s)"
| "truth_table_loop backend (inp # rest) rows s =
    (case backend (truth_table_call inp) s of
       (Inl e, s') \<Rightarrow> (Inl e, s')
     | (Inr cnts, s') \<Rightarrow>
        (case prob_kill_of cnts of
           Inl e \<Rightarrow> (Inl e, s')
         | Inr prob_kill \<Rightarrow> truth_table_loop backend rest (rows @ [make_row inp prob_kill]) s'))"

definition evaluate_truth_table_quantum :: "'s backend \<Rightarrow> 's \<Rightarrow> (error + row list) \<times> 's" where
  "evaluate_truth_table_quantum backend s = truth_table_loop backend (product3 [0, 1]) [] s"

text \<open>The circuit of \<open>superposition_counts\<close>: a new 5-bit classical register, Hadamard
  gates on qubits 0, 1, 2, the kill circuit, and the measurement of qubits
  4, 3, 2, 1, 0 into classical bits 0 .. 4.\<close>

definition superposition_circuit :: circuit where
  "superposition_circuit =
    (let (qc_base, qr, _) = build_reversible_kill_circuit;
         cr = 5;
         prep = QuantumCircuit qr cr;
         prep = h_list [0, 1, 2] prep;
         full = compose prep qc_base;
         full = measure_list [4, 3, 2, 1, 0] [0 ..< 5] full
     in full)"

definition superposition_call :: "bool \<Rightarrow> noise_model option \<Rightarrow> run_call" where
  "superposition_call noisy noise_model =
     \<lparr>rc_circuit = transpile superposition_circuit, rc_shots = 4096,
      rc_noise_model = (if noisy then noise_model else None), rc_seed_simulator = None\<rparr>"

definition superposition_counts ::
  "'s backend \<Rightarrow> bool \<Rightarrow> noise_model option \<Rightarrow> 's \<Rightarrow> (error + counts) \<times> 's" where
  "superposition_counts backend noisy noise_model s =
     backend (superposition_call noisy noise_model) s"

text \<open>The main program. Its result is the list of effects performed, the exception that
  ended it (if any), the state of the simulator and the state of the file system. The
  banners are printed without their leading newline and non-ASCII prefix; \<open>plot_counts\<close>
  is called with the default \<open>save=False\<close>, \<open>build_simple_noise_model\<close> with its default
  arguments \<open>p1=0.002, p2=0.02, readout_err=0.03\<close>.\<close>

definition main ::
  "'s backend \<Rightarrow> 'w os_env \<Rightarrow> 's \<Rightarrow> 'w \<Rightarrow> (effect list \<times> error option) \<times> 's \<times> 'w" where
  "main backend env s0 w0 =
    (let out = [Print ''Classical vs Quantum truth table (ideal simulator):''] in
     case evaluate_truth_table_quantum backend s0 of
       (Inl e, s1) \<Rightarrow> ((out, Some e), s1, w0)
     | (Inr df, s1) \<Rightarrow>
        (let out = out @ [PrintTable df, Print ''Quantum superposition counts (ideal):''] in
         case superposition_counts backend False None s1 of
           (Inl e, s2) \<Rightarrow> ((out, Some e), s2, w0)
         | (Inr cnts, s2) \<Rightarrow>
            (let out = out @ [PrintSample (take 5 cnts)] in
             case plot_counts env (Some cnts) ''Quantum Superposition (Ideal)'' False w0 of
               ((eff, Some e), w1) \<Rightarrow> ((out @ eff, Some e), s2, w1)
             | ((eff, None), w1) \<Rightarrow>
                (let out = out @ eff @ [Print ''Quantum superposition counts (noisy):''] in
                 case build_simple_noise_model 0.002 0.02 0.03 of
                   Inl e \<Rightarrow> ((out, Some e), s2, w1)
                 | Inr noise \<Rightarrow>
                    (case superposition_counts backend True (Some noise) s2 of
                       (Inl e, s3) \<Rightarrow> ((out, Some e), s3, w1)
                     | (Inr noisy_counts, s3) \<Rightarrow>
                        (let out = out @ [PrintSample (take 5 noisy_counts)] in
                         case plot_counts env (Some noisy_counts)
                                ''Quantum Superposition (Noisy)'' False w1 of
                           ((eff, Some e), w2) \<Rightarrow> ((out @ eff, Some e), s3, w2)
                         | ((eff, None), w2) \<Rightarrow>
                             ((out @ eff
                                   @ [Print ''All simulations completed successfully.''],
                               None), s3, w2)))))))"

text \<open>A simulator that also records every call made to it and what it answered.\<close>

definition logging :: "'s backend \<Rightarrow> ((run_call \<times> (error + counts)) list \<times> 's) backend" where
  "logging backend call ls =
     (case ls of (lg, s) \<Rightarrow>
        (case backend call s of (r, s') \<Rightarrow> (r, (lg @ [(call, r)], s'))))"

section \<open>The simulation engine\<close>

text \<open>The program delegates simulation to its library; the engine below is the one the
  specification describes. A state vector maps the index of a basis state (qubit 0 the
  least significant bit) to its complex amplitude; for \<open>n\<close> qubits the indices below
  \<open>2 ^ n\<close> matter.\<close>

type_synonym statevec = "nat \<Rightarrow> complex"

text \<open>Modelled from the spec: the basis state \<open>|k\<rangle>\<close> of the state vector (the engine is
  not part of the sources).\<close>

definition ket :: "nat \<Rightarrow> statevec" where
  "ket k = (\<lambda>i. if i = k then 1 else 0)"

text \<open>Modelled from the spec: X of the gate library (the engine is not part of the
  sources): it swaps the amplitudes of the indices that differ only in the target bit.\<close>

definition apply_X :: "nat \<Rightarrow> statevec \<Rightarrow> statevec" where
  "apply_X t \<psi> = (\<lambda>i. \<psi> (flip_bit t i))"

text \<open>Modelled from the spec: H of the gate library (the engine is not part of the
  sources): the transform \<open>1/sqrt 2 [[1, 1], [1, -1]]\<close> across each pair of amplitudes
  that differ only in the target bit.\<close>

definition apply_H :: "nat \<Rightarrow> statevec \<Rightarrow> statevec" where
  "apply_H t \<psi> = (\<lambda>i. (if bit i t then \<psi> (flip_bit t i) - \<psi> i
                         else \<psi> i + \<psi> (flip_bit t i)) / complex_of_real (sqrt 2))"

text \<open>Modelled from the spec: CX of the gate library (the engine is not part of the
  sources): X on the target where the control bit is 1.\<close>

definition apply_CX :: "nat \<Rightarrow> nat \<Rightarrow> statevec \<Rightarrow> statevec" where
  "apply_CX c t \<psi> = (\<lambda>i. if bit i c then \<psi> (flip_bit t i) else \<psi> i)"

text \<open>Modelled from the spec: CCX of the gate library (the engine is not part of the
  sources): X on the target where both control bits are 1.\<close>

definition apply_CCX :: "nat \<Rightarrow> nat \<Rightarrow> nat \<Rightarrow> statevec \<Rightarrow> statevec" where
  "apply_CCX c1 c2 t \<psi> = (\<lambda>i. if bit i c1 \<and> bit i c2 then \<psi> (flip_bit t i) else \<psi> i)"

text \<open>Modelled from the spec: the probability mass a Reset retains (the engine is not
  part of the sources): the squared magnitudes of the amplitudes whose target bit is 0.\<close>

definition retained_mass :: "nat \<Rightarrow> nat \<Rightarrow> statevec \<Rightarrow> real" where
  "retained_mass n t \<psi> = (\<Sum>i<2 ^ n. if bit i t then 0 else (cmod (\<psi> i))\<^sup>2)"

text \<open>Modelled from the spec: Reset of the gate library (the engine is not part of the
  sources): the amplitudes whose target bit is 1 become zero and the others are divided
  by the square root of the retained mass; when that mass is zero the result is \<open>|0\<rangle>\<close>.\<close>

definition apply_Reset :: "nat \<Rightarrow> nat \<Rightarrow> statevec \<Rightarrow> statevec" where
  "apply_Reset n t \<psi> =
    (let m = retained_mass n t \<psi> in
     if m = 0 then ket 0
     else (\<lambda>i. if bit i t then 0 else \<psi> i / complex_of_real (sqrt m)))"

text \<open>Modelled from the spec: an out-of-range qubit index fails with InvalidOperand
  (the engine is not part of the sources). A measurement leaves the state to the final
  sampling.\<close>

fun apply_gate :: "nat \<Rightarrow> gate \<Rightarrow> statevec \<Rightarrow> error + statevec" where
  "apply_gate n (X t) \<psi> = (if t < n then Inr (apply_X t \<psi>) else Inl InvalidOperand)"
| "apply_gate n (H t) \<psi> = (if t < n then Inr (apply_H t \<psi>) else Inl InvalidOperand)"
| "apply_gate n (CX c t) \<psi> =
     (if c < n \<and> t < n then Inr (apply_CX c t \<psi>) else Inl InvalidOperand)"
| "apply_gate n (CCX c1 c2 t) \<psi> =
     (if c1 < n \<and> c2 < n \<and> t < n then Inr (apply_CCX c1 c2 t \<psi>) else Inl InvalidOperand)"
| "apply_gate n (Reset t) \<psi> =
     (if t < n then Inr (apply_Reset n t \<psi>) else Inl InvalidOperand)"
| "apply_gate n (Measure q c) \<psi> = (if q < n then Inr \<psi> else Inl InvalidOperand)"

text \<open>Modelled from the spec: the random source (the engine is not part of the sources).
  It is a stream of uniform draws from \<open>[0, 1)\<close> and the position of the next draw.\<close>

record rng =
  draws :: "nat \<Rightarrow> real"
  pos :: nat

text \<open>Modelled from the spec: one draw from the random source (the engine is not part
  of the sources); it returns the draw and the source advanced by one position.\<close>

definition next_draw :: "rng \<Rightarrow> real \<times> rng" where
  "next_draw r = (draws r (pos r), r\<lparr>pos := Suc (pos r)\<rparr>)"

text \<open>Modelled from the spec: what the specification leaves to the implementer is a
  parameter of the engine (the engine is not part of the sources): how a noise channel
  perturbs the result of a gate (from the noise model, the gate, the state before and
  the ideal state after), how the readout channel flips the reported bits, and how a
  seed becomes a random source.\<close>

record engine =
  gate_noise :: "noise_model \<Rightarrow> gate \<Rightarrow> statevec \<Rightarrow> statevec \<Rightarrow> rng \<Rightarrow> statevec \<times> rng"
  readout_noise :: "noise_model \<Rightarrow> bool list \<Rightarrow> rng \<Rightarrow> bool list \<times> rng"
  reseed :: "nat \<Rightarrow> rng"

text \<open>Modelled from the spec: one shot applies the operations in sequence from \<open>|0\<rangle>\<close>,
  interleaved with the noise channel when a noise model is active (the engine is not
  part of the sources). A measurement records which qubit a classical bit reports; an
  out-of-range index fails with InvalidOperand and a classical bit written twice with
  DuplicateMeasurement.\<close>

fun run_ops ::
  "engine \<Rightarrow> noise_model option \<Rightarrow> nat \<Rightarrow> nat \<Rightarrow> gate list \<Rightarrow> statevec \<Rightarrow> (nat \<times> nat) list \<Rightarrow> rng
   \<Rightarrow> (error + statevec \<times> (nat \<times> nat) list) \<times> rng" where
  "run_ops en nm n c [] \<psi> meas r = (Inr (\<psi>, meas), r)"
| "run_ops en nm n c (Measure q b # gs) \<psi> meas r =
     (if \<not> q < n \<or> \<not> b < c then (Inl InvalidOperand, r)
      else if b \<in> set (map fst meas) then (Inl DuplicateMeasurement, r)
      else run_ops en nm n c gs \<psi> (meas @ [(b, q)]) r)"
| "run_ops en nm n c (g # gs) \<psi> meas r =
     (case apply_gate n g \<psi> of
        Inl e \<Rightarrow> (Inl e, r)
      | Inr \<psi>' \<Rightarrow>
         (case nm of
            None \<Rightarrow> run_ops en nm n c gs \<psi>' meas r
          | Some m \<Rightarrow>
             (case gate_noise en m g \<psi> \<psi>' r of
                (\<psi>'', r') \<Rightarrow> run_ops en nm n c gs \<psi>'' meas r')))"

text \<open>Modelled from the spec: the Born rule (the engine is not part of the sources): the
  probability of a basis state is the squared magnitude of its amplitude.\<close>

definition born :: "statevec \<Rightarrow> nat \<Rightarrow> real" where
  "born \<psi> i = (cmod (\<psi> i))\<^sup>2"

text \<open>Modelled from the spec: drawing one index from a distribution with one uniform
  draw (the engine is not part of the sources); the draw selects the first index at
  which the cumulative probability exceeds it, and the last index otherwise.\<close>

fun sample_from :: "(nat \<Rightarrow> real) \<Rightarrow> nat \<Rightarrow> nat \<Rightarrow> real \<Rightarrow> nat" where
  "sample_from p i 0 u = i"
| "sample_from p i (Suc m) u = (if u < p i then i else sample_from p (Suc i) m (u - p i))"

text \<open>Modelled from the spec: the final measurement draws one basis state of the \<open>n\<close>
  qubits from the joint distribution of the squared magnitudes (the engine is not part
  of the sources).\<close>

definition sample_index :: "nat \<Rightarrow> statevec \<Rightarrow> real \<Rightarrow> nat" where
  "sample_index n \<psi> u = sample_from (born \<psi>) 0 (2 ^ n - 1) u"

text \<open>Modelled from the spec: the reported bits are extracted from the sampled index,
  classical bit \<open>j\<close> from the qubit measured into it, 0 when none is (the engine is not
  part of the sources).\<close>

definition clbit_values :: "nat \<Rightarrow> (nat \<times> nat) list \<Rightarrow> nat \<Rightarrow> bool list" where
  "clbit_values c meas k =
     map (\<lambda>j. case map_of meas j of None \<Rightarrow> False | Some q \<Rightarrow> bit k q) [0 ..< c]"

text \<open>Modelled from the spec: the bitstring is written most significant (highest
  classical bit) first (the engine is not part of the sources).\<close>

definition bitstring_of :: "bool list \<Rightarrow> string" where
  "bitstring_of bs = map (\<lambda>b. if b then CHR ''1'' else CHR ''0'') (rev bs)"

text \<open>Modelled from the spec: one shot (the engine is not part of the sources): the
  operations are run from \<open>|0\<rangle>\<close>, one basis state is sampled with one draw, the
  measured bits are extracted, and the readout channel is applied when a noise model is
  active.\<close>

definition one_shot :: "engine \<Rightarrow> run_call \<Rightarrow> rng \<Rightarrow> (error + string) \<times> rng" where
  "one_shot en call r =
    (let qc = rc_circuit call; n = num_qubits qc; c = num_clbits qc in
     case run_ops en (rc_noise_model call) n c (ops qc) (ket 0) [] r of
       (Inl e, r1) \<Rightarrow> (Inl e, r1)
     | (Inr (\<psi>, meas), r1) \<Rightarrow>
        (case next_draw r1 of
           (u, r2) \<Rightarrow>
             (let bits = clbit_values c meas (sample_index n \<psi> u) in
              case rc_noise_model call of
                None \<Rightarrow> (Inr (bitstring_of bits), r2)
              | Some m \<Rightarrow>
                 (case readout_noise en m bits r2 of
                    (bits', r3) \<Rightarrow> (Inr (bitstring_of bits'), r3)))))"

text \<open>Modelled from the spec: the histogram counts one more occurrence of a bitstring
  (the engine is not part of the sources).\<close>

fun tally :: "string \<Rightarrow> counts \<Rightarrow> counts" where
  "tally key [] = [(key, 1)]"
| "tally key ((k, n) # rest) =
     (if k = key then (k, Suc n) # rest else (k, n) # tally key rest)"

text \<open>Modelled from the spec: the shots are run one after the other, each from a fresh
  state, and accumulated in the histogram; an error ends the run (the engine is not part
  of the sources).\<close>

fun shots_loop :: "engine \<Rightarrow> run_call \<Rightarrow> nat \<Rightarrow> counts \<Rightarrow> rng \<Rightarrow> (error + counts) \<times> rng" where
  "shots_loop en call 0 acc r = (Inr acc, r)"
| "shots_loop en call (Suc k) acc r =
     (case one_shot en call r of
        (Inl e, r') \<Rightarrow> (Inl e, r')
      | (Inr key, r') \<Rightarrow> shots_loop en call k (tally key acc) r')"

text \<open>Modelled from the spec: the entry point \<open>run(circuit, shots, noise_model_or_none)\<close>
  (the engine is not part of the sources). A run with no shots fails with
  InvalidShotCount. A seed in the call replaces the random source; without one the
  run draws from the source it is given.\<close>

definition simulator :: "engine \<Rightarrow> rng backend" where
  "simulator en call r =
    (let r0 = (case rc_seed_simulator call of None \<Rightarrow> r | Some sd \<Rightarrow> reseed en sd) in
     if rc_shots call = 0 then (Inl InvalidShotCount, r0)
     else shots_loop en call (rc_shots call) [] r0)"

section \<open>Notions used in the statements\<close>

text \<open>The fraction the specification describes for \<open>prob_kill\<close>: the sum of the counts
  of the bitstrings whose first (most significant) reported bit is \<open>1\<close>, divided by the
  sum of all counts.\<close>

definition msb_one_fraction :: "counts \<Rightarrow> real" where
  "msb_one_fraction cnts =
     real (sum_list (map snd
        (filter (\<lambda>(bitstring, cnt). bitstring \<noteq> [] \<and> hd bitstring = CHR ''1'') cnts)))
     / real (sum_list (map snd cnts))"

text \<open>Every draw of the random source lies in \<open>[0, 1)\<close>.\<close>

definition unit_draws :: "rng \<Rightarrow> bool" where
  "unit_draws r \<longleftrightarrow> (\<forall>i. 0 \<le> draws r i \<and> draws r i < 1)"

text \<open>Qubit \<open>q\<close> is in state \<open>|0\<rangle>\<close>: no basis state with bit \<open>q\<close> set has an amplitude.\<close>

definition qubit_is_zero :: "nat \<Rightarrow> statevec \<Rightarrow> bool" where
  "qubit_is_zero q \<psi> \<longleftrightarrow> (\<forall>i. bit i q \<longrightarrow> \<psi> i = 0)"

text \<open>The operations respect the sizes of the registers, and no classical bit is
  written twice (\<open>seen\<close> are the classical bits already written).\<close>

fun valid_ops :: "nat \<Rightarrow> nat \<Rightarrow> nat list \<Rightarrow> gate list \<Rightarrow> bool" where
  "valid_ops n c seen [] = True"
| "valid_ops n c seen (X t # gs) = (t < n \<and> valid_ops n c seen gs)"
| "valid_ops n c seen (H t # gs) = (t < n \<and> valid_ops n c seen gs)"
| "valid_ops n c seen (CX a t # gs) = (a < n \<and> t < n \<and> valid_ops n c seen gs)"
| "valid_ops n c seen (CCX a b t # gs) = (a < n \<and> b < n \<and> t < n \<and> valid_ops n c seen gs)"
| "valid_ops n c seen (Reset t # gs) = (t < n \<and> valid_ops n c seen gs)"
| "valid_ops n c seen (Measure q b # gs) =
     (q < n \<and> b < c \<and> b \<notin> set seen \<and> valid_ops n c (seen @ [b]) gs)"

text \<open>The noise model of the default rates \<open>p1=0.002, p2=0.02, readout_err=0.03\<close>.\<close>

definition build_simple_noise_model_default :: noise_model where
  "build_simple_noise_model_default =
     \<lparr>default_quantum_errors =
        [(''u1'', Depolarizing 0.002 1), (''u2'', Depolarizing 0.002 1),
         (''u3'', Depolarizing 0.002 1), (''x'', Depolarizing 0.002 1),
         (''h'', Depolarizing 0.002 1), (''cx'', Depolarizing 0.02 2),
         (''ccx'', Depolarizing (0.02 * 1.5) 3)],
      default_readout_error = Some (Readout [[1 - 0.03, 0.03], [0.03, 1 - 0.03]] 1)\<rparr>"

text \<open>The components of a path: \<open>fname.split('/')\<close>.\<close>

fun split_path :: "string \<Rightarrow> string list" where
  "split_path [] = [[]]"
| "split_path (c # cs) =
    (if c = CHR ''/'' then [] # split_path cs
     else (case split_path cs of
             [] \<Rightarrow> [[c]]
           | h # t \<Rightarrow> (c # h) # t))"

text \<open>A small file system for the examples, with paths relative to the working
  directory and neither permissions nor limits. A location is the list of the names that
  lead to it from the working directory, a leading \<open>..\<close> for every level above it. The
  file system holds the directories and the files listed; the working directory and the
  directories above it exist.\<close>

record fs =
  dirs :: "string list list"
  files :: "string list list"

definition is_dir :: "fs \<Rightarrow> string list \<Rightarrow> bool" where
  "is_dir w loc \<longleftrightarrow> list_all (\<lambda>name. name = ''..'') loc \<or> loc \<in> set (dirs w)"

definition parent :: "string list \<Rightarrow> string list" where
  "parent loc = (if list_all (\<lambda>name. name = ''..'') loc then loc @ [''..''] else butlast loc)"

text \<open>Following the components of a directory path from a location: every component
  must name a directory that exists.\<close>

fun walk :: "fs \<Rightarrow> string list \<Rightarrow> string list \<Rightarrow> error + string list" where
  "walk w loc [] = Inr loc"
| "walk w loc (name # rest) =
    (if name = [] then walk w loc rest
     else if name = ''.'' then walk w loc rest
     else if name = ''..'' then walk w (parent loc) rest
     else if is_dir w (loc @ [name]) then walk w (loc @ [name]) rest
     else if loc @ [name] \<in> set (files w) then Inl NotADirectoryError
     else Inl FileNotFoundError)"

text \<open>Creating a directory and the missing directories on the way to it.\<close>

fun make_path :: "bool \<Rightarrow> string list \<Rightarrow> string list \<Rightarrow> fs \<Rightarrow> error option \<times> fs" where
  "make_path exist_ok loc [] w = (if exist_ok then (None, w) else (Some FileExistsError, w))"
| "make_path exist_ok loc (name # rest) w =
    (if name = [] then make_path exist_ok loc rest w
     else if name = ''.'' then make_path exist_ok loc rest w
     else if name = ''..'' then make_path exist_ok (parent loc) rest w
     else if is_dir w (loc @ [name]) then make_path exist_ok (loc @ [name]) rest w
     else if loc @ [name] \<in> set (files w)
       then (Some (if rest = [] then FileExistsError else NotADirectoryError), w)
     else make_path True (loc @ [name]) rest (w\<lparr>dirs := dirs w @ [loc @ [name]]\<rparr>))"

definition fs_makedirs :: "string \<Rightarrow> bool \<Rightarrow> fs \<Rightarrow> error option \<times> fs" where
  "fs_makedirs name exist_ok w =
     (if name = [] then (Some FileNotFoundError, w)
      else make_path exist_ok [] (split_path name) w)"

text \<open>Saving a figure opens the file for writing: the directory of the path must
  exist, and the path must not name a directory.\<close>

definition fs_savefig :: "string \<Rightarrow> fs \<Rightarrow> error option \<times> fs" where
  "fs_savefig fname w =
    (let names = split_path fname in
     case walk w [] (butlast names) of
       Inl e \<Rightarrow> (Some e, w)
     | Inr loc \<Rightarrow>
        (if last names \<in> set ['''', ''.'', ''..''] then (Some IsADirectoryError, w)
         else if is_dir w (loc @ [last names]) then (Some IsADirectoryError, w)
         else (None, w\<lparr>files := List.insert (loc @ [last names]) (files w)\<rparr>)))"

definition fs_env :: "fs os_env" where
  "fs_env = \<lparr>makedirs = fs_makedirs, savefig = fs_savefig\<rparr>"

definition empty_fs :: fs where
  "empty_fs = \<lparr>dirs = [], files = []\<rparr>"

text \<open>Concrete inputs for the examples: a simulator that answers every call with the
  same counts, an engine without noise, and a random source of zeros.\<close>

definition fixed_backend :: "counts \<Rightarrow> unit backend" where
  "fixed_backend cnts call s = (Inr cnts, s)"

definition zero_rng :: rng where
  "zero_rng = \<lparr>draws = (\<lambda>i. 0), pos = 0\<rparr>"

definition ideal_engine :: engine where
  "ideal_engine =
     \<lparr>gate_noise = (\<lambda>m g \<psi> \<psi>' r. (\<psi>', r)),
      readout_noise = (\<lambda>m bits r. (bits, r)),
      reseed = (\<lambda>sd. zero_rng)\<rparr>"

text \<open>The eight combinations of the three inputs, in the order of the loop, and the
  operations of the preparation for one combination.\<close>

definition truth_table_inputs :: "(int \<times> int \<times> int) list" where
  "truth_table_inputs =
     [(0, 0, 0), (0, 0, 1), (0, 1, 0), (0, 1, 1), (1, 0, 0), (1, 0, 1), (1, 1, 0), (1, 1, 1)]"

definition prep_ops :: "int \<times> int \<times> int \<Rightarrow> gate list" where
  "prep_ops = (\<lambda>(m, t, g).
     (if m \<noteq> 0 then [X 0] else []) @ (if t \<noteq> 0 then [X 1] else [])
       @ (if g \<noteq> 0 then [X 2] else []))"

definition kill_ops :: "gate list" where
  "kill_ops = [Reset 4, CX 0 4, CX 1 4, CX 2 4, CCX 0 1 4, CCX 0 2 4, CCX 1 2 4]"

section \<open>Shapes of the circuits\<close>

lemma truth_table_circuit_eq:
  "truth_table_circuit inp =
     \<lparr>num_qubits = 5, num_clbits = 1, ops = prep_ops inp @ kill_ops @ [Measure 4 0]\<rparr>"
  by (cases inp)
     (simp add: truth_table_circuit_def build_reversible_kill_circuit_def QuantumCircuit_def
      append_op_def compose_def prep_ops_def kill_ops_def)

lemma superposition_circuit_eq:
  "superposition_circuit =
     \<lparr>num_qubits = 5, num_clbits = 5,
      ops = [H 0, H 1, H 2] @ kill_ops
            @ [Measure 4 0, Measure 3 1, Measure 2 2, Measure 1 3, Measure 0 4]\<rparr>"
  by (simp add: superposition_circuit_def build_reversible_kill_circuit_def QuantumCircuit_def
      append_op_def compose_def h_list_def measure_list_def upt_rec kill_ops_def)

lemma compose_sites_fit:
  "fits (QuantumCircuit 5 1) (fst build_reversible_kill_circuit)"
  "fits (QuantumCircuit 5 5) (fst build_reversible_kill_circuit)"
  by (simp_all add: fits_def QuantumCircuit_def build_reversible_kill_circuit_def append_op_def)

lemma product3_bits: "product3 [0, 1] = truth_table_inputs"
  by (simp add: product3_def truth_table_inputs_def)

lemma truth_table_call_simps:
  "rc_noise_model (truth_table_call inp) = None"
  "rc_seed_simulator (truth_table_call inp) = None"
  "rc_shots (truth_table_call inp) = Suc 1023"
  "rc_circuit (truth_table_call inp) = truth_table_circuit inp"
  by (simp_all add: truth_table_call_def transpile_def)

section \<open>The circuit of the kill rule\<close>

text \<open>C2: the circuit returned by \<open>build_reversible_kill_circuit\<close> has exactly 5 qubits
  (M = 0, T = 1, G = 2, ancilla = 3, K = 4) and one classical bit, it is returned with
  its registers of 5 qubits and 1 bit, and its operation sequence is exactly
  Reset(4); CX(0,4); CX(1,4); CX(2,4); CCX(0,1,4); CCX(0,2,4); CCX(1,2,4), in that order.\<close>

theorem kill_circuit_shape:
  "num_qubits (fst build_reversible_kill_circuit) = 5 \<and>
   num_clbits (fst build_reversible_kill_circuit) = 1 \<and>
   snd build_reversible_kill_circuit = (5, 1) \<and>
   ops (fst build_reversible_kill_circuit) =
     [Reset 4, CX 0 4, CX 1 4, CX 2 4, CCX 0 1 4, CCX 0 2 4, CCX 1 2 4]"
  by (simp add: build_reversible_kill_circuit_def QuantumCircuit_def append_op_def)

section \<open>The truth-table loop and the calls it makes\<close>

lemma logging_pair:
  "logging b call (lg, s) = (case b call s of (r, s') \<Rightarrow> (r, (lg @ [(call, r)], s')))"
  by (simp add: logging_def)

lemma first_is_one_iff: "first_is_one b \<longleftrightarrow> b \<noteq> [] \<and> hd b = CHR ''1''"
  by (cases b) auto

lemma prob_kill_of_Inr: "prob_kill_of c = Inr p \<Longrightarrow> p = msb_one_fraction c"
  by (auto simp: prob_kill_of_def msb_one_fraction_def Let_def first_is_one_iff split: if_splits)

lemma truth_table_loop_logging:
  "truth_table_loop (logging b) xs rows (lg, s) = (Inr rows', (lg', s')) \<Longrightarrow>
   \<exists>cs. length cs = length xs \<and> lg' = lg @ zip (map truth_table_call xs) (map Inr cs) \<and>
        rows' = rows @ map2 (\<lambda>inp c. make_row inp (msb_one_fraction c)) xs cs"
proof (induction xs arbitrary: rows lg s)
  case Nil
  then show ?case by simp
next
  case (Cons inp rest)
  obtain r s1 where b: "b (truth_table_call inp) s = (r, s1)"
    by (cases "b (truth_table_call inp) s")
  from Cons.prems b obtain c where r: "r = Inr c"
    by (cases r) (auto simp: logging_pair)
  from Cons.prems b r obtain p where p: "prob_kill_of c = Inr p"
    by (cases "prob_kill_of c") (auto simp: logging_pair)
  from Cons.prems b r p have
    "truth_table_loop (logging b) rest (rows @ [make_row inp p])
       (lg @ [(truth_table_call inp, Inr c)], s1) = (Inr rows', (lg', s'))"
    by (simp add: logging_pair)
  from Cons.IH[OF this] obtain cs where cs: "length cs = length rest"
    "lg' = (lg @ [(truth_table_call inp, Inr c)]) @ zip (map truth_table_call rest) (map Inr cs)"
    "rows' = (rows @ [make_row inp p])
               @ map2 (\<lambda>inp c. make_row inp (msb_one_fraction c)) rest cs"
    by blast
  have "p = msb_one_fraction c" using prob_kill_of_Inr[OF p] .
  with cs show ?case
    by (intro exI[of _ "c # cs"]) simp
qed

lemma truth_table_loop_calls:
  "truth_table_loop (logging b) xs rows (lg, s) = (res, (lg', s')) \<Longrightarrow>
   \<exists>k. map fst lg' = map fst lg @ map truth_table_call (take k xs)"
proof (induction xs arbitrary: rows lg s)
  case Nil
  then show ?case by simp
next
  case (Cons inp rest)
  obtain r1 s1 where b: "b (truth_table_call inp) s = (r1, s1)"
    by (cases "b (truth_table_call inp) s")
  have one: "\<exists>k. map fst (lg @ [(truth_table_call inp, r1)])
               = map fst lg @ map truth_table_call (take k (inp # rest))"
    by (intro exI[of _ "Suc 0"]) simp
  show ?case
  proof (cases r1)
    case (Inl e)
    with Cons.prems b one show ?thesis by (auto simp: logging_pair)
  next
    case (Inr c)
    show ?thesis
    proof (cases "prob_kill_of c")
      case (Inl e)
      with Cons.prems b \<open>r1 = Inr c\<close> one show ?thesis by (auto simp: logging_pair)
    next
      case (Inr p)
      with Cons.prems b \<open>r1 = Inr c\<close> have
        "truth_table_loop (logging b) rest (rows @ [make_row inp p])
           (lg @ [(truth_table_call inp, Inr c)], s1) = (res, (lg', s'))"
        by (simp add: logging_pair)
      from Cons.IH[OF this] obtain k where
        "map fst lg' = map fst (lg @ [(truth_table_call inp, Inr c)])
                         @ map truth_table_call (take k rest)" by blast
      then show ?thesis by (intro exI[of _ "Suc k"]) simp
    qed
  qed
qed

section \<open>The noise library on the rates of the program\<close>

text \<open>The matrix of the program is accepted for a flip probability in \<open>[0, 1]\<close>, and
  it is the identity for the flip probability 0 only.\<close>

lemma readout_matrix:
  "ReadoutError [[1 - r, r], [r, 1 - r]] =
     (if 0 \<le> r \<and> r \<le> 1 then Inr (Readout [[1 - r, r], [r, 1 - r]] (Suc 0))
      else Inl NoiseError)"
proof -
  have "[0 ..< 2] = [0, Suc 0]" by (simp add: upt_rec)
  then have "find (\<lambda>q. 2 ^ q = (2::nat)) [0 ..< 2] = Some (Suc 0)" by simp
  then show ?thesis
    by (simp add: ReadoutError_def valid_row_def atol_def)
qed

lemma eye_2: "eye (Suc (Suc 0)) = [[1, 0], [0, 1]]"
  by (simp add: eye_def)

lemma readout_matrix_ideal:
  "ideal_readout (Readout [[1 - r, r], [r, 1 - r]] n) \<longleftrightarrow> r = 0"
  by (auto simp: eye_2)

lemma add_errors_one_qubit:
  "add_errors (Depolarizing p (Suc 0)) [''u1'', ''u2'', ''u3'', ''x'', ''h''] nm =
     Inr (nm\<lparr>default_quantum_errors := default_quantum_errors nm
            @ [(''u1'', Depolarizing p 1), (''u2'', Depolarizing p 1),
               (''u3'', Depolarizing p 1), (''x'', Depolarizing p 1),
               (''h'', Depolarizing p 1)]\<rparr>)"
  by (simp add: instruction_qubits_def)

lemma add_errors_cx:
  "add_errors (Depolarizing p 2) [''cx''] nm =
     Inr (nm\<lparr>default_quantum_errors := default_quantum_errors nm
            @ [(''cx'', Depolarizing p 2)]\<rparr>)"
  by (simp add: instruction_qubits_def)

lemma add_errors_ccx:
  "add_errors (Depolarizing p 3) [''ccx''] nm =
     Inr (nm\<lparr>default_quantum_errors := default_quantum_errors nm
            @ [(''ccx'', Depolarizing p 3)]\<rparr>)"
  by (simp add: instruction_qubits_def)

lemma depolarizing_error_simps:
  "depolarizing_error p (Suc 0) = (if p < 0 \<or> 4 / 3 < p then Inl NoiseError else Inr (Depolarizing p 1))"
  "depolarizing_error p 2 = (if p < 0 \<or> 16 / 15 < p then Inl NoiseError else Inr (Depolarizing p 2))"
  "depolarizing_error p 3 = (if p < 0 \<or> 64 / 63 < p then Inl NoiseError else Inr (Depolarizing p 3))"
  by (simp_all add: depolarizing_error_def Let_def)

lemma readout_step:
  "(case ReadoutError [[1 - r, r], [r, 1 - r]] of Inl e \<Rightarrow> Inl e
    | Inr readout \<Rightarrow>
       (case add_all_qubit_readout_error readout nm of Inl e \<Rightarrow> Inl e | Inr nm' \<Rightarrow> Inr nm'))
   = (if 0 \<le> r \<and> r \<le> 1
      then Inr (if r = 0 then nm
                else nm\<lparr>default_readout_error := Some (Readout [[1 - r, r], [r, 1 - r]] 1)\<rparr>)
      else Inl NoiseError)"
  by (simp add: readout_matrix add_all_qubit_readout_error_def readout_matrix_ideal
      del: ideal_readout.simps)

lemma quantum_step:
  "add_all_qubit_quantum_error (Depolarizing p (Suc 0)) [''u1'', ''u2'', ''u3'', ''x'', ''h''] nm =
     Inr (if p = 0 then nm else nm\<lparr>default_quantum_errors := default_quantum_errors nm
            @ [(''u1'', Depolarizing p 1), (''u2'', Depolarizing p 1),
               (''u3'', Depolarizing p 1), (''x'', Depolarizing p 1),
               (''h'', Depolarizing p 1)]\<rparr>)"
  "add_all_qubit_quantum_error (Depolarizing p 2) [''cx''] nm =
     Inr (if p = 0 then nm else nm\<lparr>default_quantum_errors := default_quantum_errors nm
            @ [(''cx'', Depolarizing p 2)]\<rparr>)"
  "add_all_qubit_quantum_error (Depolarizing p 3) [''ccx''] nm =
     Inr (if p = 0 then nm else nm\<lparr>default_quantum_errors := default_quantum_errors nm
            @ [(''ccx'', Depolarizing p 3)]\<rparr>)"
  by (simp_all add: add_all_qubit_quantum_error_def add_errors_one_qubit add_errors_cx
      add_errors_ccx del: add_errors.simps)

text \<open>What \<open>build_simple_noise_model\<close> returns, for all rates.\<close>

lemma build_simple_noise_model_eq:
  "build_simple_noise_model p1 p2 r =
    (if 0 \<le> p1 \<and> p1 \<le> 4 / 3 \<and> 0 \<le> p2 \<and> 1.5 * p2 \<le> 64 / 63 \<and> 0 \<le> r \<and> r \<le> 1
     then Inr \<lparr>default_quantum_errors =
                 (if p1 = 0 then []
                  else [(''u1'', Depolarizing p1 1), (''u2'', Depolarizing p1 1),
                        (''u3'', Depolarizing p1 1), (''x'', Depolarizing p1 1),
                        (''h'', Depolarizing p1 1)])
                 @ (if p2 = 0 then []
                    else [(''cx'', Depolarizing p2 2), (''ccx'', Depolarizing (1.5 * p2) 3)]),
               default_readout_error =
                 (if r = 0 then None else Some (Readout [[1 - r, r], [r, 1 - r]] 1))\<rparr>
     else Inl NoiseError)"
  by (simp add: build_simple_noise_model_def NoiseModel_def depolarizing_error_simps
      quantum_step readout_step Let_def
      del: add_errors.simps ideal_readout.simps)

lemma build_simple_noise_model_in_range:
  assumes "0 < p1" "p1 \<le> 4 / 3" "0 < p2" "1.5 * p2 \<le> 64 / 63" "0 < r" "r \<le> 1"
  shows "build_simple_noise_model p1 p2 r =
     Inr \<lparr>default_quantum_errors =
            [(''u1'', Depolarizing p1 1), (''u2'', Depolarizing p1 1),
             (''u3'', Depolarizing p1 1), (''x'', Depolarizing p1 1),
             (''h'', Depolarizing p1 1), (''cx'', Depolarizing p2 2),
             (''ccx'', Depolarizing (1.5 * p2) 3)],
          default_readout_error = Some (Readout [[1 - r, r], [r, 1 - r]] 1)\<rparr>"
  using assms by (simp add: build_simple_noise_model_eq)

text \<open>The library accepts the default rates, and none of them is zero.\<close>

lemma build_simple_noise_model_defaults:
  "build_simple_noise_model 0.002 0.02 0.03 = Inr build_simple_noise_model_default"
  using build_simple_noise_model_in_range[of "0.002" "0.02" "0.03"]
  by (simp add: build_simple_noise_model_default_def)

lemma build_simple_noise_model_defaults':
  "build_simple_noise_model (1 / 500) (1 / 50) (3 / 100) = Inr build_simple_noise_model_default"
  using build_simple_noise_model_defaults by simp

section \<open>The calls of the main program\<close>

lemma superposition_counts_logging:
  "superposition_counts (logging b) noisy nm (lg, s) =
     (case b (superposition_call noisy nm) s of
        (r, s') \<Rightarrow> (r, (lg @ [(superposition_call noisy nm, r)], s')))"
  by (simp add: superposition_counts_def logging_pair)

lemma seed_of_calls:
  "rc_seed_simulator (truth_table_call inp) = None"
  "rc_seed_simulator (superposition_call noisy nm) = None"
  by (simp_all add: truth_table_call_def superposition_call_def)

text \<open>Without \<open>save\<close>, \<open>plot_counts\<close> raises nothing and leaves the file system alone.\<close>

lemma plot_counts_no_save:
  "plot_counts env c title False w =
     ((if \<not> truthy c then [Print (''No data to plot for '' @ title)]
       else [plt_figure, plt_bar [0 ..< length (the c)] (map snd (the c)) (map fst (the c)),
             plt_xticks, plt_title title, plt_xlabel ''Output state (bitstring)'',
             plt_ylabel ''Counts'', plt_tight_layout, plt_show], None), w)"
  by (simp add: plot_counts_def Let_def)

lemma main_calls_prefix:
  assumes "main (logging b) env ([], s) w = (res, (lg, s'), w')"
  shows "\<exists>k. map fst lg = map truth_table_call (take k truth_table_inputs)
           @ take (k - 8) [superposition_call False None,
                           superposition_call True (Some build_simple_noise_model_default)]"
proof -
  obtain r1 lg1 s1 where tt: "evaluate_truth_table_quantum (logging b) ([], s) = (r1, (lg1, s1))"
    by (metis surj_pair)
  then have "truth_table_loop (logging b) truth_table_inputs [] ([], s) = (r1, (lg1, s1))"
    by (simp add: evaluate_truth_table_quantum_def product3_bits)
  from truth_table_loop_calls[OF this] obtain k where
    k: "map fst lg1 = map truth_table_call (take k truth_table_inputs)" by auto
  show ?thesis
  proof (cases r1)
    case (Inl e)
    with assms tt have "lg = lg1" by (simp add: main_def)
    moreover have "map fst lg1 = map truth_table_call (take (min k 8) truth_table_inputs)"
      using k by (simp add: truth_table_inputs_def min_def)
    ultimately show ?thesis by (intro exI[of _ "min k 8"]) simp
  next
    case (Inr df)
    with tt have "truth_table_loop (logging b) truth_table_inputs [] ([], s) = (Inr df, (lg1, s1))"
      by (simp add: evaluate_truth_table_quantum_def product3_bits)
    from truth_table_loop_logging[OF this]
    have lg1: "map fst lg1 = map truth_table_call truth_table_inputs"
      by auto
    obtain r2 s2 where c2: "b (superposition_call False None) s1 = (r2, s2)"
      by (metis surj_pair)
    show ?thesis
    proof (cases r2)
      case (Inl e)
      with assms tt \<open>r1 = Inr df\<close> c2
      have "lg = lg1 @ [(superposition_call False None, r2)]"
        by (simp add: main_def superposition_counts_logging)
      with lg1 show ?thesis
        by (intro exI[of _ 9]) (simp add: truth_table_inputs_def)
    next
      case (Inr cnts)
      obtain r3 s3 where c3:
        "b (superposition_call True (Some build_simple_noise_model_default)) s2 = (r3, s3)"
        by (metis surj_pair)
      from assms tt \<open>r1 = Inr df\<close> c2 \<open>r2 = Inr cnts\<close> c3
      have "lg = lg1 @ [(superposition_call False None, r2),
                        (superposition_call True (Some build_simple_noise_model_default), r3)]"
        by (cases r3) (simp_all add: main_def superposition_counts_logging Let_def
            plot_counts_no_save build_simple_noise_model_defaults')
      with lg1 show ?thesis
        by (intro exI[of _ 10]) (simp add: truth_table_inputs_def)
    qed
  qed
qed

lemma main_calls_complete:
  assumes "main (logging b) env ([], s) w = ((out, None), (lg, s'), w')"
  shows "map fst lg = map truth_table_call truth_table_inputs
           @ [superposition_call False None,
              superposition_call True (Some build_simple_noise_model_default)]"
proof -
  obtain r1 lg1 s1 where tt: "evaluate_truth_table_quantum (logging b) ([], s) = (r1, (lg1, s1))"
    by (metis surj_pair)
  from assms tt obtain df where r1: "r1 = Inr df"
    by (cases r1) (auto simp: main_def)
  with tt have "truth_table_loop (logging b) truth_table_inputs [] ([], s) = (Inr df, (lg1, s1))"
    by (simp add: evaluate_truth_table_quantum_def product3_bits)
  from truth_table_loop_logging[OF this]
  have lg1: "map fst lg1 = map truth_table_call truth_table_inputs"
    by auto
  obtain r2 s2 where c2: "b (superposition_call False None) s1 = (r2, s2)"
    by (metis surj_pair)
  from assms tt r1 c2 obtain cnts where r2: "r2 = Inr cnts"
    by (cases r2) (auto simp: main_def superposition_counts_logging)
  obtain r3 s3 where c3:
    "b (superposition_call True (Some build_simple_noise_model_default)) s2 = (r3, s3)"
    by (metis surj_pair)
  from assms tt r1 c2 r2 c3
  have "lg = lg1 @ [(superposition_call False None, r2),
                    (superposition_call True (Some build_simple_noise_model_default), r3)]"
    by (cases r3) (simp_all add: main_def superposition_counts_logging Let_def
        plot_counts_no_save build_simple_noise_model_defaults')
  with lg1 show ?thesis by simp
qed

text \<open>The main program never saves a plot: it leaves the file system as it found it.\<close>

lemma main_leaves_file_system:
  "snd (snd (main backend env s w)) = w"
  by (simp add: main_def Let_def plot_counts_no_save build_simple_noise_model_defaults'
      split: prod.splits sum.splits)

section \<open>The truth-table driver\<close>

lemma prob_kill_of_rows:
  "length xs = length cs \<Longrightarrow>
   map Quantum_Prob_Kill (map2 (\<lambda>inp c. make_row inp (f c)) xs cs) = map f cs"
  by (induction xs cs rule: list_induct2) (auto simp: make_row_def)

text \<open>C3: the truth-table driver invokes the simulator exactly once for each of the 8
  combinations of the 3 binary inputs, in the order of the loop; the circuit of each call
  is the preparation (an X on each qubit whose input is 1) followed by the fixed kill
  circuit and the measurement of qubit 4, the call asks for 1024 shots, and the
  \<open>Quantum_Prob_Kill\<close> of each row is the sum of the counts of the bitstrings whose most
  significant reported bit is 1, divided by the sum of all counts, of what the simulator
  answered to that call. The simulator is arbitrary; \<open>logging\<close> records its calls.\<close>

theorem truth_table_driver_calls:
  assumes "evaluate_truth_table_quantum (logging b) ([], s) = (Inr rows, (lg, s'))"
  shows "(\<exists>cs. length cs = 8 \<and>
            lg = zip (map truth_table_call truth_table_inputs) (map Inr cs) \<and>
            rows = map2 (\<lambda>inp c. make_row inp (msb_one_fraction c)) truth_table_inputs cs \<and>
            map Quantum_Prob_Kill rows = map msb_one_fraction cs) \<and>
         distinct truth_table_inputs \<and>
         set truth_table_inputs = {0, 1} \<times> {0, 1} \<times> {0, 1} \<and>
         rc_shots (truth_table_call (m, t, g)) = 1024 \<and>
         ops (rc_circuit (truth_table_call (m, t, g))) =
           ((if m \<noteq> 0 then [X 0] else []) @ (if t \<noteq> 0 then [X 1] else [])
              @ (if g \<noteq> 0 then [X 2] else []))
           @ ops (fst build_reversible_kill_circuit) @ [Measure 4 0]"
proof -
  from assms have "truth_table_loop (logging b) truth_table_inputs [] ([], s) = (Inr rows, (lg, s'))"
    by (simp add: evaluate_truth_table_quantum_def product3_bits)
  from truth_table_loop_logging[OF this] obtain cs where cs:
    "length cs = length truth_table_inputs"
    "lg = zip (map truth_table_call truth_table_inputs) (map Inr cs)"
    "rows = map2 (\<lambda>inp c. make_row inp (msb_one_fraction c)) truth_table_inputs cs"
    by auto
  have len: "length cs = 8" using cs(1) by (simp add: truth_table_inputs_def)
  have "map Quantum_Prob_Kill rows = map msb_one_fraction cs"
    unfolding cs(3)
    by (rule prob_kill_of_rows[of truth_table_inputs cs msb_one_fraction]) (simp add: cs(1))
  with cs len have first: "\<exists>cs. length cs = 8 \<and>
            lg = zip (map truth_table_call truth_table_inputs) (map Inr cs) \<and>
            rows = map2 (\<lambda>inp c. make_row inp (msb_one_fraction c)) truth_table_inputs cs \<and>
            map Quantum_Prob_Kill rows = map msb_one_fraction cs"
    by blast
  have d: "distinct truth_table_inputs" by (simp add: truth_table_inputs_def)
  have st: "set truth_table_inputs = {0, 1} \<times> {0, 1} \<times> {0, 1}"
    by (auto simp: truth_table_inputs_def)
  have sh: "rc_shots (truth_table_call (m, t, g)) = 1024"
    by (simp add: truth_table_call_def)
  have oc: "ops (rc_circuit (truth_table_call (m, t, g))) =
           ((if m \<noteq> 0 then [X 0] else []) @ (if t \<noteq> 0 then [X 1] else [])
              @ (if g \<noteq> 0 then [X 2] else []))
           @ ops (fst build_reversible_kill_circuit) @ [Measure 4 0]"
    by (simp add: truth_table_call_simps truth_table_circuit_eq prep_ops_def kill_ops_def
        build_reversible_kill_circuit_def QuantumCircuit_def append_op_def)
  show ?thesis
    by (rule conjI[OF first conjI[OF d conjI[OF st conjI[OF sh oc]]]])
qed

theorem truth_table_driver_calls_witness:
  "evaluate_truth_table_quantum (logging (fixed_backend [(''1'', 1024)])) ([], ()) =
     (Inr (map (\<lambda>inp. make_row inp 1) truth_table_inputs),
      (map (\<lambda>inp. (truth_table_call inp, Inr [(''1'', 1024)])) truth_table_inputs, ())) \<and>
   (\<exists>cs. length cs = 8 \<and>
      map (\<lambda>inp. (truth_table_call inp, (Inr [(''1'', 1024)] :: error + counts)))
          truth_table_inputs =
        zip (map truth_table_call truth_table_inputs) (map Inr cs) \<and>
      map (\<lambda>inp. make_row inp 1) truth_table_inputs =
        map2 (\<lambda>inp c. make_row inp (msb_one_fraction c)) truth_table_inputs cs \<and>
      map Quantum_Prob_Kill (map (\<lambda>inp. make_row inp 1) truth_table_inputs) =
        map msb_one_fraction cs) \<and>
   distinct truth_table_inputs \<and>
   set truth_table_inputs = {0, 1} \<times> {0, 1} \<times> {0, 1} \<and>
   rc_shots (truth_table_call (1, 0, 1)) = 1024 \<and>
   ops (rc_circuit (truth_table_call (1, 0, 1))) =
     [X 0, X 2] @ ops (fst build_reversible_kill_circuit) @ [Measure 4 0]"
proof -
  have run: "evaluate_truth_table_quantum (logging (fixed_backend [(''1'', 1024)])) ([], ()) =
     (Inr (map (\<lambda>inp. make_row inp 1) truth_table_inputs),
      (map (\<lambda>inp. (truth_table_call inp, Inr [(''1'', 1024)])) truth_table_inputs, ()))"
    by (simp add: evaluate_truth_table_quantum_def product3_bits truth_table_inputs_def
        logging_pair fixed_backend_def prob_kill_of_def)
  note inst = truth_table_driver_calls[OF run, where m=1 and t=0 and g=1]
  note c1 = inst[THEN conjunct1]
  note c2 = inst[THEN conjunct2, THEN conjunct1]
  note c3 = inst[THEN conjunct2, THEN conjunct2, THEN conjunct1]
  note c4 = inst[THEN conjunct2, THEN conjunct2, THEN conjunct2, THEN conjunct1]
  have c5: "ops (rc_circuit (truth_table_call (1, 0, 1))) =
     [X 0, X 2] @ ops (fst build_reversible_kill_circuit) @ [Measure 4 0]"
    using inst[THEN conjunct2, THEN conjunct2, THEN conjunct2, THEN conjunct2] by simp
  show ?thesis
    by (rule conjI[OF run conjI[OF c1 conjI[OF c2 conjI[OF c3 conjI[OF c4 c5]]]]])
qed

section \<open>The superposition driver and the main program\<close>

lemma main_fixed_backend:
  "snd (fst (main (logging (fixed_backend [(''1'', 1024)])) fs_env ([], ()) empty_fs)) = None \<and>
   snd (fst (snd (main (logging (fixed_backend [(''1'', 1024)])) fs_env ([], ()) empty_fs))) = ()"
  by (simp add: main_def evaluate_truth_table_quantum_def product3_bits truth_table_inputs_def
      logging_pair fixed_backend_def prob_kill_of_def superposition_counts_logging
      plot_counts_no_save build_simple_noise_model_defaults')

text \<open>C4: the superposition driver builds one circuit that puts qubits 0, 1 and 2 through
  a Hadamard gate before the kill circuit and measures all 5 qubits into 5 classical
  bits, and it asks for 4096 shots; a complete run of the main program invokes it exactly
  twice, after the eight truth-table runs: first without a noise model, then with the
  noise model built with the default rates, which the noise library accepts. No
  truth-table call carries the superposition circuit.\<close>

theorem superposition_driver_calls:
  assumes "main (logging b) env ([], s) w = ((out, None), (lg, s'), w')"
  shows "superposition_circuit =
           \<lparr>num_qubits = 5, num_clbits = 5,
            ops = [H 0, H 1, H 2] @ ops (fst build_reversible_kill_circuit)
                  @ [Measure 4 0, Measure 3 1, Measure 2 2, Measure 1 3, Measure 0 4]\<rparr> \<and>
         rc_circuit (superposition_call noisy nm) = superposition_circuit \<and>
         rc_shots (superposition_call noisy nm) = 4096 \<and>
         map fst lg = map truth_table_call truth_table_inputs
           @ [superposition_call False None,
              superposition_call True (Some build_simple_noise_model_default)] \<and>
         rc_noise_model (superposition_call False None) = None \<and>
         rc_noise_model (superposition_call True (Some build_simple_noise_model_default))
           = Some build_simple_noise_model_default \<and>
         build_simple_noise_model 0.002 0.02 0.03 = Inr build_simple_noise_model_default \<and>
         rc_circuit (truth_table_call inp) \<noteq> superposition_circuit"
proof -
  have a: "superposition_circuit =
           \<lparr>num_qubits = 5, num_clbits = 5,
            ops = [H 0, H 1, H 2] @ ops (fst build_reversible_kill_circuit)
                  @ [Measure 4 0, Measure 3 1, Measure 2 2, Measure 1 3, Measure 0 4]\<rparr>"
    by (simp add: superposition_circuit_eq kill_ops_def build_reversible_kill_circuit_def
        QuantumCircuit_def append_op_def)
  have b: "rc_circuit (superposition_call noisy nm) = superposition_circuit"
    by (simp add: superposition_call_def transpile_def)
  have c: "rc_shots (superposition_call noisy nm) = 4096"
    by (simp add: superposition_call_def)
  note d = main_calls_complete[OF assms]
  have e: "rc_noise_model (superposition_call False None) = None"
    by (simp add: superposition_call_def)
  have f: "rc_noise_model (superposition_call True (Some build_simple_noise_model_default))
           = Some build_simple_noise_model_default"
    by (simp add: superposition_call_def)
  note f' = build_simple_noise_model_defaults
  have g: "rc_circuit (truth_table_call inp) \<noteq> superposition_circuit"
    by (simp add: truth_table_call_simps truth_table_circuit_eq superposition_circuit_eq)
  show ?thesis
    by (rule conjI[OF a conjI[OF b conjI[OF c conjI[OF d conjI[OF e conjI[OF f conjI[OF f' g]]]]]]])
qed

theorem superposition_driver_calls_witness:
  "snd (fst (main (logging (fixed_backend [(''1'', 1024)])) fs_env ([], ()) empty_fs)) = None \<and>
   map fst (fst (fst (snd (main (logging (fixed_backend [(''1'', 1024)])) fs_env ([], ())
                             empty_fs)))) =
     map truth_table_call truth_table_inputs
       @ [superposition_call False None,
          superposition_call True (Some build_simple_noise_model_default)] \<and>
   rc_shots (superposition_call True (Some build_simple_noise_model_default)) = 4096"
proof -
  let ?R = "main (logging (fixed_backend [(''1'', 1024)])) fs_env ([], ()) empty_fs"
  have run: "?R = ((fst (fst ?R), None), (fst (fst (snd ?R)), ()), snd (snd ?R))"
    using main_fixed_backend by (simp add: prod_eq_iff)
  note inst = superposition_driver_calls[OF run,
      where noisy=True and nm="Some build_simple_noise_model_default"]
  from main_fixed_backend inst show ?thesis by blast
qed

section \<open>Seeds\<close>

text \<open>C7 as stated fails: the calls the program makes carry no seed. Here the first
  truth-table call and the ideal superposition call.\<close>

theorem no_seed_counterexample:
  "rc_seed_simulator (truth_table_call (0, 0, 0)) = None \<and>
   rc_seed_simulator (superposition_call False None) = None"
  by (simp add: truth_table_call_def superposition_call_def)

text \<open>C7, amended: no simulator invocation of the program supplies a seed or a generator
  handle. Whatever the simulator answers, and however far the main program gets, every
  call it has made carries the library's default (no seed), so every run draws from the
  random source the simulator has at that moment. The engine itself is reproducible: two
  runs of the same circuit with the same seed and the same shot count give the same
  histogram, whatever the random source at hand is.\<close>

theorem no_call_supplies_a_seed:
  assumes "main (logging b) env ([], s) w = (res, (lg, s'), w')"
  shows "list_all (\<lambda>call. rc_seed_simulator call = None) (map fst lg) \<and>
         simulator en ((call :: run_call)\<lparr>rc_seed_simulator := Some sd\<rparr>) r
           = simulator en (call\<lparr>rc_seed_simulator := Some sd\<rparr>) r'"
proof (rule conjI)
  show "simulator en (call\<lparr>rc_seed_simulator := Some sd\<rparr>) r
           = simulator en (call\<lparr>rc_seed_simulator := Some sd\<rparr>) r'"
    by (simp add: simulator_def)
next
  from main_calls_prefix[OF assms] obtain k where
    "map fst lg = map truth_table_call (take k truth_table_inputs)
           @ take (k - 8) [superposition_call False None,
                           superposition_call True (Some build_simple_noise_model_default)]"
    by blast
  then show "list_all (\<lambda>call. rc_seed_simulator call = None) (map fst lg)"
    by (auto simp: list_all_iff seed_of_calls dest!: in_set_takeD)
qed

theorem no_call_supplies_a_seed_witness:
  "list_all (\<lambda>call. rc_seed_simulator call = None)
     (map fst (fst (fst (snd (main (logging (fixed_backend [(''1'', 1024)])) fs_env ([], ())
                                empty_fs))))) \<and>
   length (fst (fst (snd (main (logging (fixed_backend [(''1'', 1024)])) fs_env ([], ())
                            empty_fs)))) = 10 \<and>
   simulator ideal_engine (truth_table_call (1, 1, 1)\<lparr>rc_seed_simulator := Some 7\<rparr>) zero_rng
     = simulator ideal_engine (truth_table_call (1, 1, 1)\<lparr>rc_seed_simulator := Some 7\<rparr>)
         (zero_rng\<lparr>pos := 5\<rparr>)"
proof -
  let ?R = "main (logging (fixed_backend [(''1'', 1024)])) fs_env ([], ()) empty_fs"
  have run: "?R = (fst ?R, (fst (fst (snd ?R)), snd (fst (snd ?R))), snd (snd ?R))"
    by (simp add: prod_eq_iff)
  have len: "length (fst (fst (snd ?R))) = 10"
    by (simp add: main_def evaluate_truth_table_quantum_def product3_bits truth_table_inputs_def
        logging_pair fixed_backend_def prob_kill_of_def superposition_counts_logging
        plot_counts_no_save build_simple_noise_model_defaults')
  note inst = no_call_supplies_a_seed[OF run, where en=ideal_engine
      and call="truth_table_call (1, 1, 1)" and sd=7 and r=zero_rng
      and r'="zero_rng\<lparr>pos := 5\<rparr>"]
  show ?thesis
    by (rule conjI[OF inst[THEN conjunct1] conjI[OF len inst[THEN conjunct2]]])
qed

section \<open>The noise model built by the program\<close>

text \<open>C5 as stated fails: it does not hold for every \<open>p1\<close>, \<open>p2\<close> and \<open>readout_err\<close>.
  With \<open>p2 = 0.7\<close> the three-qubit parameter \<open>1.5 * 0.7 = 1.05\<close> exceeds \<open>64/63\<close>, and
  with \<open>readout_err = 1.5\<close> the matrix has a negative entry: the library raises
  \<open>NoiseError\<close> and no noise model is built. With \<open>p1 = 0\<close> the one-qubit error is ideal
  and no error is attached to u1, u2, u3, x and h; with \<open>readout_err = 0\<close> no readout
  error is attached.\<close>

theorem build_simple_noise_model_counterexample:
  "build_simple_noise_model 0.002 0.7 0.03 = Inl NoiseError \<and>
   build_simple_noise_model 0.002 0.02 1.5 = Inl NoiseError \<and>
   build_simple_noise_model 0 0.02 0.03 =
     Inr \<lparr>default_quantum_errors =
            [(''cx'', Depolarizing 0.02 2), (''ccx'', Depolarizing 0.03 3)],
          default_readout_error = Some (Readout [[0.97, 0.03], [0.03, 0.97]] 1)\<rparr> \<and>
   build_simple_noise_model 0.002 0.02 0 =
     Inr \<lparr>default_quantum_errors =
            [(''u1'', Depolarizing 0.002 1), (''u2'', Depolarizing 0.002 1),
             (''u3'', Depolarizing 0.002 1), (''x'', Depolarizing 0.002 1),
             (''h'', Depolarizing 0.002 1), (''cx'', Depolarizing 0.02 2),
             (''ccx'', Depolarizing 0.03 3)],
          default_readout_error = None\<rparr>"
  by (simp add: build_simple_noise_model_eq)

text \<open>C5, amended: for rates the library accepts and none of which is zero, that is
  \<open>0 < p1 \<le> 4/3\<close>, \<open>0 < p2\<close> with \<open>1.5 * p2 \<le> 64/63\<close>, and \<open>0 < readout_err \<le> 1\<close>,
  \<open>build_simple_noise_model\<close> returns a noise model that attaches a one-qubit
  depolarizing error with parameter \<open>p1\<close> to the one-qubit gates u1, u2, u3, x and h, a
  two-qubit depolarizing error with parameter \<open>p2\<close> to cx, a three-qubit depolarizing
  error with parameter \<open>1.5 * p2\<close> to ccx, to no other instruction, and one readout error
  with the symmetric matrix \<open>[[1 - r, r], [r, 1 - r]]\<close> to all qubits.\<close>

theorem build_simple_noise_model_channels:
  assumes "0 < p1" and "p1 \<le> 4 / 3"
    and "0 < p2" and "1.5 * p2 \<le> 64 / 63"
    and "0 < r" and "r \<le> 1"
  shows "build_simple_noise_model p1 p2 r =
     Inr \<lparr>default_quantum_errors =
            [(''u1'', Depolarizing p1 1), (''u2'', Depolarizing p1 1),
             (''u3'', Depolarizing p1 1), (''x'', Depolarizing p1 1),
             (''h'', Depolarizing p1 1), (''cx'', Depolarizing p2 2),
             (''ccx'', Depolarizing (1.5 * p2) 3)],
          default_readout_error = Some (Readout [[1 - r, r], [r, 1 - r]] 1)\<rparr>"
  using assms by (rule build_simple_noise_model_in_range)

theorem build_simple_noise_model_channels_witness:
  "(0::real) < 0.002 \<and> (0.002::real) \<le> 4 / 3 \<and> (0::real) < 0.02 \<and>
   (1.5::real) * 0.02 \<le> 64 / 63 \<and> (0::real) < 0.03 \<and> (0.03::real) \<le> 1 \<and>
   build_simple_noise_model 0.002 0.02 0.03 =
     Inr \<lparr>default_quantum_errors =
            [(''u1'', Depolarizing 0.002 1), (''u2'', Depolarizing 0.002 1),
             (''u3'', Depolarizing 0.002 1), (''x'', Depolarizing 0.002 1),
             (''h'', Depolarizing 0.002 1), (''cx'', Depolarizing 0.02 2),
             (''ccx'', Depolarizing 0.03 3)],
          default_readout_error = Some (Readout [[0.97, 0.03], [0.03, 0.97]] 1)\<rparr>"
  using build_simple_noise_model_channels[of "0.002" "0.02" "0.03"] by simp

section \<open>Plots\<close>

lemma split_path_no_separator:
  "CHR ''/'' \<notin> set s \<Longrightarrow> split_path s = [s]"
  by (induction s) auto

lemma split_path_plots:
  "CHR ''/'' \<notin> set s \<Longrightarrow> split_path (''plots/'' @ s) = [''plots'', s]"
  by (simp add: split_path_no_separator)

lemma plot_counts_save:
  assumes "d \<noteq> []"
  shows "plot_counts env (Some d) title True w =
    (case makedirs env ''plots'' True w of
       (Some e, w1) \<Rightarrow>
         (([plt_figure, plt_bar [0 ..< length d] (map snd d) (map fst d), plt_xticks,
            plt_title title, plt_xlabel ''Output state (bitstring)'', plt_ylabel ''Counts'',
            plt_tight_layout, plt_show, os_makedirs ''plots'' True], Some e), w1)
     | (None, w1) \<Rightarrow>
        (case savefig env (''plots/'' @ replace CHR '' '' CHR ''_'' title @ ''.png'') w1 of
           (Some e, w2) \<Rightarrow>
             (([plt_figure, plt_bar [0 ..< length d] (map snd d) (map fst d), plt_xticks,
                plt_title title, plt_xlabel ''Output state (bitstring)'',
                plt_ylabel ''Counts'', plt_tight_layout, plt_show,
                os_makedirs ''plots'' True,
                plt_savefig (''plots/'' @ replace CHR '' '' CHR ''_'' title @ ''.png'')],
               Some e), w2)
         | (None, w2) \<Rightarrow>
             (([plt_figure, plt_bar [0 ..< length d] (map snd d) (map fst d), plt_xticks,
                plt_title title, plt_xlabel ''Output state (bitstring)'',
                plt_ylabel ''Counts'', plt_tight_layout, plt_show,
                os_makedirs ''plots'' True,
                plt_savefig (''plots/'' @ replace CHR '' '' CHR ''_'' title @ ''.png''),
                Print (''Saved: plots/'' @ replace CHR '' '' CHR ''_'' title @ ''.png'')],
               None), w2)))"
  using assms by (simp add: plot_counts_def Let_def split: prod.splits option.splits)

text \<open>In the small file system, starting with no directory at all.\<close>

lemma fs_makedirs_plots:
  "makedirs fs_env ''plots'' True empty_fs = (None, \<lparr>dirs = [[''plots'']], files = []\<rparr>)"
  by (simp add: fs_env_def fs_makedirs_def empty_fs_def is_dir_def)

text \<open>C8 as stated fails: only the directory \<open>plots\<close> is created and only spaces are
  replaced. For the title \<open>a/b\<close> the path is \<open>plots/a/b.png\<close>; in a file system without
  the directory \<open>plots/a\<close> the save raises \<open>FileNotFoundError\<close>, no file is written and
  nothing is printed after it. For the title \<open>../x\<close> the file is written, as \<open>x.png\<close> in
  the working directory, outside \<open>plots\<close>.\<close>

theorem plot_counts_save_counterexample:
  "plot_counts fs_env (Some [(''00001'', 7)]) ''a/b'' True empty_fs =
     (([plt_figure, plt_bar [0] [7] [''00001''], plt_xticks, plt_title ''a/b'',
        plt_xlabel ''Output state (bitstring)'', plt_ylabel ''Counts'', plt_tight_layout,
        plt_show, os_makedirs ''plots'' True, plt_savefig ''plots/a/b.png''],
       Some FileNotFoundError),
      \<lparr>dirs = [[''plots'']], files = []\<rparr>) \<and>
   plot_counts fs_env (Some [(''00001'', 7)]) ''../x'' True empty_fs =
     (([plt_figure, plt_bar [0] [7] [''00001''], plt_xticks, plt_title ''../x'',
        plt_xlabel ''Output state (bitstring)'', plt_ylabel ''Counts'', plt_tight_layout,
        plt_show, os_makedirs ''plots'' True, plt_savefig ''plots/../x.png'',
        Print ''Saved: plots/../x.png''],
       None),
      \<lparr>dirs = [[''plots'']], files = [[''x.png'']]\<rparr>)"
proof -
  have a: "savefig fs_env ''plots/a/b.png'' \<lparr>dirs = [[''plots'']], files = []\<rparr>
             = (Some FileNotFoundError, \<lparr>dirs = [[''plots'']], files = []\<rparr>)"
    by (simp add: fs_env_def fs_savefig_def is_dir_def)
  have b: "savefig fs_env ''plots/../x.png'' \<lparr>dirs = [[''plots'']], files = []\<rparr>
             = (None, \<lparr>dirs = [[''plots'']], files = [[''x.png'']]\<rparr>)"
    by (simp add: fs_env_def fs_savefig_def is_dir_def parent_def)
  show ?thesis
    by (simp add: plot_counts_save fs_makedirs_plots replace_def a b)
qed

text \<open>C8, amended: whenever \<open>plot_counts\<close> is called with a non-empty counts dictionary
  and \<open>save=True\<close>, and neither \<open>os.makedirs\<close> nor \<open>plt.savefig\<close> raises, it creates the
  directory \<open>plots\<close> (accepting that it exists), saves the figure, once, at the path
  \<open>plots/\<close> followed by the title in which every space is replaced by an underscore and
  by \<open>.png\<close>, and prints that path. For a title without \<open>/\<close> this path has two
  components: the directory \<open>plots\<close> and the file named by the sanitized title followed
  by \<open>.png\<close>.\<close>

theorem plot_counts_saves_under_plots:
  assumes "d \<noteq> []"
    and "makedirs env ''plots'' True w = (None, w1)"
    and "savefig env (''plots/'' @ map (\<lambda>c. if c = CHR '' '' then CHR ''_'' else c) title
                      @ ''.png'') w1 = (None, w2)"
  shows "plot_counts env (Some d) title True w =
     (([plt_figure, plt_bar [0 ..< length d] (map snd d) (map fst d), plt_xticks,
        plt_title title, plt_xlabel ''Output state (bitstring)'', plt_ylabel ''Counts'',
        plt_tight_layout, plt_show,
        os_makedirs ''plots'' True,
        plt_savefig (''plots/'' @ map (\<lambda>c. if c = CHR '' '' then CHR ''_'' else c) title
                     @ ''.png''),
        Print (''Saved: plots/'' @ map (\<lambda>c. if c = CHR '' '' then CHR ''_'' else c) title
               @ ''.png'')], None), w2) \<and>
     (CHR ''/'' \<notin> set title \<longrightarrow>
        split_path (''plots/'' @ map (\<lambda>c. if c = CHR '' '' then CHR ''_'' else c) title
                    @ ''.png'')
          = [''plots'', map (\<lambda>c. if c = CHR '' '' then CHR ''_'' else c) title @ ''.png''])"
proof (rule conjI)
  from assms show "plot_counts env (Some d) title True w =
     (([plt_figure, plt_bar [0 ..< length d] (map snd d) (map fst d), plt_xticks,
        plt_title title, plt_xlabel ''Output state (bitstring)'', plt_ylabel ''Counts'',
        plt_tight_layout, plt_show,
        os_makedirs ''plots'' True,
        plt_savefig (''plots/'' @ map (\<lambda>c. if c = CHR '' '' then CHR ''_'' else c) title
                     @ ''.png''),
        Print (''Saved: plots/'' @ map (\<lambda>c. if c = CHR '' '' then CHR ''_'' else c) title
               @ ''.png'')], None), w2)"
    by (simp add: plot_counts_save replace_def)
next
  show "CHR ''/'' \<notin> set title \<longrightarrow>
        split_path (''plots/'' @ map (\<lambda>c. if c = CHR '' '' then CHR ''_'' else c) title
                    @ ''.png'')
          = [''plots'', map (\<lambda>c. if c = CHR '' '' then CHR ''_'' else c) title @ ''.png'']"
  proof
    assume "CHR ''/'' \<notin> set title"
    then have "CHR ''/'' \<notin> set (map (\<lambda>c. if c = CHR '' '' then CHR ''_'' else c) title
                                   @ ''.png'')"
      by auto
    then show "split_path (''plots/'' @ map (\<lambda>c. if c = CHR '' '' then CHR ''_'' else c) title
                    @ ''.png'')
          = [''plots'', map (\<lambda>c. if c = CHR '' '' then CHR ''_'' else c) title @ ''.png'']"
      by (rule split_path_plots)
  qed
qed

theorem plot_counts_saves_under_plots_witness:
  "[(''00001'', 7::nat)] \<noteq> [] \<and>
   makedirs fs_env ''plots'' True empty_fs = (None, \<lparr>dirs = [[''plots'']], files = []\<rparr>) \<and>
   savefig fs_env ''plots/Quantum_Superposition_(Ideal).png''
       \<lparr>dirs = [[''plots'']], files = []\<rparr>
     = (None, \<lparr>dirs = [[''plots'']],
               files = [[''plots'', ''Quantum_Superposition_(Ideal).png'']]\<rparr>) \<and>
   CHR ''/'' \<notin> set ''Quantum Superposition (Ideal)'' \<and>
   plot_counts fs_env (Some [(''00001'', 7)]) ''Quantum Superposition (Ideal)'' True empty_fs =
     (([plt_figure, plt_bar [0] [7] [''00001''], plt_xticks,
        plt_title ''Quantum Superposition (Ideal)'', plt_xlabel ''Output state (bitstring)'',
        plt_ylabel ''Counts'', plt_tight_layout, plt_show,
        os_makedirs ''plots'' True,
        plt_savefig ''plots/Quantum_Superposition_(Ideal).png'',
        Print ''Saved: plots/Quantum_Superposition_(Ideal).png''], None),
      \<lparr>dirs = [[''plots'']],
       files = [[''plots'', ''Quantum_Superposition_(Ideal).png'']]\<rparr>) \<and>
   split_path ''plots/Quantum_Superposition_(Ideal).png''
     = [''plots'', ''Quantum_Superposition_(Ideal).png'']"
proof -
  have h1: "[(''00001'', 7::nat)] \<noteq> []" by simp
  note h2 = fs_makedirs_plots
  have h3': "savefig fs_env ''plots/Quantum_Superposition_(Ideal).png''
       \<lparr>dirs = [[''plots'']], files = []\<rparr>
     = (None, \<lparr>dirs = [[''plots'']],
               files = [[''plots'', ''Quantum_Superposition_(Ideal).png'']]\<rparr>)"
    by (simp add: fs_env_def fs_savefig_def is_dir_def)
  then have h3: "savefig fs_env (''plots/''
         @ map (\<lambda>c. if c = CHR '' '' then CHR ''_'' else c) ''Quantum Superposition (Ideal)''
         @ ''.png'') \<lparr>dirs = [[''plots'']], files = []\<rparr>
     = (None, \<lparr>dirs = [[''plots'']],
               files = [[''plots'', ''Quantum_Superposition_(Ideal).png'']]\<rparr>)"
    by simp
  have h4: "CHR ''/'' \<notin> set ''Quantum Superposition (Ideal)''" by simp
  from plot_counts_saves_under_plots[OF h1 h2 h3] h1 h2 h3' h4 show ?thesis by simp
qed

text \<open>C10: called with an empty dictionary (or with \<open>None\<close>), \<open>plot_counts\<close> only prints
  the diagnostic message: it creates no figure, shows no plot and writes no file,
  whatever \<open>save\<close> is.\<close>

theorem plot_counts_without_data:
  "plot_counts env (Some []) title save w
     = (([Print (''No data to plot for '' @ title)], None), w) \<and>
   plot_counts env None title save w
     = (([Print (''No data to plot for '' @ title)], None), w)"
  by (simp add: plot_counts_def)

section \<open>The gates on basis states\<close>

lemma flip_bit_flip_bit: "flip_bit t (flip_bit t i) = (i::nat)"
  by (rule bit_eqI) (auto simp: bit_flip_bit_iff)

lemma flip_bit_eq_iff: "flip_bit t i = k \<longleftrightarrow> i = flip_bit t (k::nat)"
  using flip_bit_flip_bit by metis

lemma bit_imp_power_le: "bit (k::nat) t \<Longrightarrow> 2 ^ t \<le> k"
proof (rule ccontr)
  assume b: "bit k t" and "\<not> 2 ^ t \<le> k"
  then have "k div 2 ^ t = 0" by simp
  with b show False by (simp add: bit_iff_odd)
qed

lemma flip_bit_nat:
  "flip_bit t (k::nat) = (if odd (k div 2 ^ t) then k - 2 ^ t else k + 2 ^ t)"
proof (cases "bit k t")
  case True
  have "int (unset_bit t k) = int k - 2 ^ t"
    using True by (simp add: bit_of_nat_iff_bit of_nat_unset_bit_eq unset_bit_eq)
  also have "\<dots> = int (k - 2 ^ t)"
    using bit_imp_power_le[OF True] by (simp add: of_nat_diff)
  finally have "unset_bit t k = k - 2 ^ t" by (simp only: of_nat_eq_iff)
  with True show ?thesis by (simp add: flip_bit_eq_if bit_iff_odd)
next
  case False
  then show ?thesis by (simp add: flip_bit_eq_if set_bit_eq bit_iff_odd)
qed

lemma apply_X_ket: "apply_X t (ket k) = ket (flip_bit t k)"
  by (auto simp: apply_X_def ket_def fun_eq_iff flip_bit_eq_iff)

lemma apply_CX_ket:
  "c \<noteq> t \<Longrightarrow> apply_CX c t (ket k) = ket (if bit k c then flip_bit t k else k)"
  by (auto simp: apply_CX_def ket_def fun_eq_iff flip_bit_eq_iff bit_flip_bit_iff)

lemma apply_CCX_ket:
  "c1 \<noteq> t \<Longrightarrow> c2 \<noteq> t \<Longrightarrow>
   apply_CCX c1 c2 t (ket k) = ket (if bit k c1 \<and> bit k c2 then flip_bit t k else k)"
  by (auto simp: apply_CCX_def ket_def fun_eq_iff flip_bit_eq_iff bit_flip_bit_iff)

lemma retained_mass_ket:
  assumes "k < 2 ^ n"
  shows "retained_mass n t (ket k) = (if bit k t then 0 else 1)"
proof -
  have "retained_mass n t (ket k) = (\<Sum>i<2 ^ n. if i = k then (if bit k t then 0 else 1) else 0)"
    unfolding retained_mass_def by (rule sum.cong) (auto simp: ket_def)
  also have "\<dots> = (if bit k t then 0 else 1)"
    using assms by (simp add: sum.delta)
  finally show ?thesis .
qed

lemma apply_Reset_ket: "k < 2 ^ n \<Longrightarrow> \<not> bit k t \<Longrightarrow> apply_Reset n t (ket k) = ket k"
  by (simp add: apply_Reset_def retained_mass_ket) (auto simp: ket_def fun_eq_iff)

lemmas ket_simps =
  apply_X_ket apply_CX_ket apply_CCX_ket apply_Reset_ket flip_bit_nat bit_iff_odd

lemma run_truth_table_circuit:
  "run_ops en None 5 1 (ops (truth_table_circuit (0, 0, 0))) (ket 0) [] r = (Inr (ket 0, [(0, 4)]), r)"
  "run_ops en None 5 1 (ops (truth_table_circuit (0, 0, 1))) (ket 0) [] r = (Inr (ket 20, [(0, 4)]), r)"
  "run_ops en None 5 1 (ops (truth_table_circuit (0, 1, 0))) (ket 0) [] r = (Inr (ket 18, [(0, 4)]), r)"
  "run_ops en None 5 1 (ops (truth_table_circuit (0, 1, 1))) (ket 0) [] r = (Inr (ket 22, [(0, 4)]), r)"
  "run_ops en None 5 1 (ops (truth_table_circuit (1, 0, 0))) (ket 0) [] r = (Inr (ket 17, [(0, 4)]), r)"
  "run_ops en None 5 1 (ops (truth_table_circuit (1, 0, 1))) (ket 0) [] r = (Inr (ket 21, [(0, 4)]), r)"
  "run_ops en None 5 1 (ops (truth_table_circuit (1, 1, 0))) (ket 0) [] r = (Inr (ket 19, [(0, 4)]), r)"
  "run_ops en None 5 1 (ops (truth_table_circuit (1, 1, 1))) (ket 0) [] r = (Inr (ket 7, [(0, 4)]), r)"
  by (simp_all add: truth_table_circuit_eq prep_ops_def kill_ops_def ket_simps)

section \<open>Sampling a basis state\<close>

lemma born_ket: "born (ket k) i = (if i = k then 1 else 0)"
  by (simp add: born_def ket_def)

lemma sample_from_ket:
  "0 \<le> u \<Longrightarrow> u < 1 \<Longrightarrow> i \<le> k \<Longrightarrow> k \<le> i + m \<Longrightarrow> sample_from (born (ket k)) i m u = k"
  by (induction m arbitrary: i) (auto simp: born_ket)

lemma sample_index_ket: "0 \<le> u \<Longrightarrow> u < 1 \<Longrightarrow> k < 2 ^ n \<Longrightarrow> sample_index n (ket k) u = k"
  unfolding sample_index_def by (rule sample_from_ket) auto

lemma unit_draws_pos [simp]: "unit_draws (r\<lparr>pos := p\<rparr>) = unit_draws r"
  by (simp add: unit_draws_def)

lemma one_shot_truth_table:
  assumes "unit_draws r"
  shows "one_shot en (truth_table_call (0, 0, 0)) r = (Inr ''0'', r\<lparr>pos := Suc (pos r)\<rparr>)"
    and "one_shot en (truth_table_call (0, 0, 1)) r = (Inr ''1'', r\<lparr>pos := Suc (pos r)\<rparr>)"
    and "one_shot en (truth_table_call (0, 1, 0)) r = (Inr ''1'', r\<lparr>pos := Suc (pos r)\<rparr>)"
    and "one_shot en (truth_table_call (0, 1, 1)) r = (Inr ''1'', r\<lparr>pos := Suc (pos r)\<rparr>)"
    and "one_shot en (truth_table_call (1, 0, 0)) r = (Inr ''1'', r\<lparr>pos := Suc (pos r)\<rparr>)"
    and "one_shot en (truth_table_call (1, 0, 1)) r = (Inr ''1'', r\<lparr>pos := Suc (pos r)\<rparr>)"
    and "one_shot en (truth_table_call (1, 1, 0)) r = (Inr ''1'', r\<lparr>pos := Suc (pos r)\<rparr>)"
    and "one_shot en (truth_table_call (1, 1, 1)) r = (Inr ''0'', r\<lparr>pos := Suc (pos r)\<rparr>)"
  using assms
  by (simp_all add: one_shot_def truth_table_call_simps truth_table_circuit_eq prep_ops_def
      kill_ops_def ket_simps next_draw_def sample_index_ket unit_draws_def bitstring_of_def
      clbit_values_def)

section \<open>Runs whose every shot gives the same bitstring\<close>

lemma tally_funpow: "(tally key ^^ Suc n) [] = [(key, Suc n)]"
  by (induction n) simp_all

lemma shots_loop_const:
  assumes "\<And>r. unit_draws r \<Longrightarrow> one_shot en call r = (Inr key, r\<lparr>pos := Suc (pos r)\<rparr>)"
  shows "unit_draws r \<Longrightarrow>
     shots_loop en call n acc r = (Inr ((tally key ^^ n) acc), r\<lparr>pos := pos r + n\<rparr>)"
proof (induction n arbitrary: acc r)
  case 0
  then show ?case by simp
next
  case (Suc n)
  then show ?case by (simp add: assms funpow_swap1)
qed

lemma simulator_const:
  assumes "\<And>r. unit_draws r \<Longrightarrow> one_shot en call r = (Inr key, r\<lparr>pos := Suc (pos r)\<rparr>)"
    and "rc_seed_simulator call = None" and "rc_shots call = Suc n" and "unit_draws r"
  shows "simulator en call r = (Inr [(key, Suc n)], r\<lparr>pos := pos r + Suc n\<rparr>)"
  using shots_loop_const[OF assms(1) assms(4), of "Suc n" "[]"] assms(2,3)
  by (simp add: simulator_def tally_funpow del: funpow.simps shots_loop.simps)

lemma simulator_truth_table:
  assumes "unit_draws r"
  shows "simulator en (truth_table_call (0, 0, 0)) r = (Inr [(''0'', 1024)], r\<lparr>pos := pos r + 1024\<rparr>)"
    and "simulator en (truth_table_call (0, 0, 1)) r = (Inr [(''1'', 1024)], r\<lparr>pos := pos r + 1024\<rparr>)"
    and "simulator en (truth_table_call (0, 1, 0)) r = (Inr [(''1'', 1024)], r\<lparr>pos := pos r + 1024\<rparr>)"
    and "simulator en (truth_table_call (0, 1, 1)) r = (Inr [(''1'', 1024)], r\<lparr>pos := pos r + 1024\<rparr>)"
    and "simulator en (truth_table_call (1, 0, 0)) r = (Inr [(''1'', 1024)], r\<lparr>pos := pos r + 1024\<rparr>)"
    and "simulator en (truth_table_call (1, 0, 1)) r = (Inr [(''1'', 1024)], r\<lparr>pos := pos r + 1024\<rparr>)"
    and "simulator en (truth_table_call (1, 1, 0)) r = (Inr [(''1'', 1024)], r\<lparr>pos := pos r + 1024\<rparr>)"
    and "simulator en (truth_table_call (1, 1, 1)) r = (Inr [(''0'', 1024)], r\<lparr>pos := pos r + 1024\<rparr>)"
  using simulator_const[where n=1023 and en=en and r=r, OF one_shot_truth_table(1)]
        simulator_const[where n=1023 and en=en and r=r, OF one_shot_truth_table(2)]
        simulator_const[where n=1023 and en=en and r=r, OF one_shot_truth_table(3)]
        simulator_const[where n=1023 and en=en and r=r, OF one_shot_truth_table(4)]
        simulator_const[where n=1023 and en=en and r=r, OF one_shot_truth_table(5)]
        simulator_const[where n=1023 and en=en and r=r, OF one_shot_truth_table(6)]
        simulator_const[where n=1023 and en=en and r=r, OF one_shot_truth_table(7)]
        simulator_const[where n=1023 and en=en and r=r, OF one_shot_truth_table(8)] assms
  by (simp_all add: truth_table_call_simps)

lemma prob_kill_of_single:
  "prob_kill_of [(''1'', 1024)] = Inr 1" "prob_kill_of [(''0'', 1024)] = Inr 0"
  by (simp_all add: prob_kill_of_def)

section \<open>The truth table on the ideal engine\<close>

text \<open>C1 asks that for every one of the 8 input triples the kill probability of the
  kill circuit on the noiseless simulator equals the classical OR of the inputs. The
  circuit does this for seven triples and not for (1, 1, 1): there the three CX and the
  three CCX gates flip qubit 4 six times, the state before the measurement is the basis
  state 7 (qubits 0, 1, 2 set, qubit 4 clear), every one of the 1024 shots reports 0,
  and the row has \<open>Quantum_Prob_Kill = 0\<close> next to \<open>Classical_Kill = 1\<close>. The theorem gives
  the whole table the driver returns, for any stream of draws from \<open>[0, 1)\<close>.\<close>

theorem kill_circuit_truth_table:
  assumes "unit_draws r"
  shows "fst (evaluate_truth_table_quantum (simulator en) r) = Inr
     [\<lparr>Mutation = 0, Timer = 0, Geosensing = 0, Quantum_Prob_Kill = 0, Classical_Kill = 0\<rparr>,
      \<lparr>Mutation = 0, Timer = 0, Geosensing = 1, Quantum_Prob_Kill = 1, Classical_Kill = 1\<rparr>,
      \<lparr>Mutation = 0, Timer = 1, Geosensing = 0, Quantum_Prob_Kill = 1, Classical_Kill = 1\<rparr>,
      \<lparr>Mutation = 0, Timer = 1, Geosensing = 1, Quantum_Prob_Kill = 1, Classical_Kill = 1\<rparr>,
      \<lparr>Mutation = 1, Timer = 0, Geosensing = 0, Quantum_Prob_Kill = 1, Classical_Kill = 1\<rparr>,
      \<lparr>Mutation = 1, Timer = 0, Geosensing = 1, Quantum_Prob_Kill = 1, Classical_Kill = 1\<rparr>,
      \<lparr>Mutation = 1, Timer = 1, Geosensing = 0, Quantum_Prob_Kill = 1, Classical_Kill = 1\<rparr>,
      \<lparr>Mutation = 1, Timer = 1, Geosensing = 1, Quantum_Prob_Kill = 0, Classical_Kill = 1\<rparr>] \<and>
     run_ops en None 5 1 (ops (truth_table_circuit (1, 1, 1))) (ket 0) [] r
       = (Inr (ket 7, [(0, 4)]), r) \<and>
     \<not> bit (7::nat) 4 \<and>
     kill_rule_classical 1 1 1 = 1"
proof (intro conjI)
  show "fst (evaluate_truth_table_quantum (simulator en) r) = Inr
     [\<lparr>Mutation = 0, Timer = 0, Geosensing = 0, Quantum_Prob_Kill = 0, Classical_Kill = 0\<rparr>,
      \<lparr>Mutation = 0, Timer = 0, Geosensing = 1, Quantum_Prob_Kill = 1, Classical_Kill = 1\<rparr>,
      \<lparr>Mutation = 0, Timer = 1, Geosensing = 0, Quantum_Prob_Kill = 1, Classical_Kill = 1\<rparr>,
      \<lparr>Mutation = 0, Timer = 1, Geosensing = 1, Quantum_Prob_Kill = 1, Classical_Kill = 1\<rparr>,
      \<lparr>Mutation = 1, Timer = 0, Geosensing = 0, Quantum_Prob_Kill = 1, Classical_Kill = 1\<rparr>,
      \<lparr>Mutation = 1, Timer = 0, Geosensing = 1, Quantum_Prob_Kill = 1, Classical_Kill = 1\<rparr>,
      \<lparr>Mutation = 1, Timer = 1, Geosensing = 0, Quantum_Prob_Kill = 1, Classical_Kill = 1\<rparr>,
      \<lparr>Mutation = 1, Timer = 1, Geosensing = 1, Quantum_Prob_Kill = 0, Classical_Kill = 1\<rparr>]"
    using assms
    by (simp add: evaluate_truth_table_quantum_def product3_bits truth_table_inputs_def
        simulator_truth_table prob_kill_of_single make_row_def kill_rule_classical_def
        py_or_def)
  show "run_ops en None 5 1 (ops (truth_table_circuit (1, 1, 1))) (ket 0) [] r
       = (Inr (ket 7, [(0, 4)]), r)"
    by (rule run_truth_table_circuit(8))
  show "\<not> bit (7::nat) 4"
    by (simp add: bit_iff_odd)
  show "kill_rule_classical 1 1 1 = 1"
    by (simp add: kill_rule_classical_def py_or_def)
qed

theorem kill_circuit_truth_table_witness:
  "unit_draws zero_rng \<and>
   fst (evaluate_truth_table_quantum (simulator ideal_engine) zero_rng) = Inr
     [\<lparr>Mutation = 0, Timer = 0, Geosensing = 0, Quantum_Prob_Kill = 0, Classical_Kill = 0\<rparr>,
      \<lparr>Mutation = 0, Timer = 0, Geosensing = 1, Quantum_Prob_Kill = 1, Classical_Kill = 1\<rparr>,
      \<lparr>Mutation = 0, Timer = 1, Geosensing = 0, Quantum_Prob_Kill = 1, Classical_Kill = 1\<rparr>,
      \<lparr>Mutation = 0, Timer = 1, Geosensing = 1, Quantum_Prob_Kill = 1, Classical_Kill = 1\<rparr>,
      \<lparr>Mutation = 1, Timer = 0, Geosensing = 0, Quantum_Prob_Kill = 1, Classical_Kill = 1\<rparr>,
      \<lparr>Mutation = 1, Timer = 0, Geosensing = 1, Quantum_Prob_Kill = 1, Classical_Kill = 1\<rparr>,
      \<lparr>Mutation = 1, Timer = 1, Geosensing = 0, Quantum_Prob_Kill = 1, Classical_Kill = 1\<rparr>,
      \<lparr>Mutation = 1, Timer = 1, Geosensing = 1, Quantum_Prob_Kill = 0, Classical_Kill = 1\<rparr>]"
proof -
  have u: "unit_draws zero_rng" by (simp add: unit_draws_def zero_rng_def)
  from kill_circuit_truth_table[OF u, of ideal_engine] u show ?thesis by blast
qed

section \<open>Qubits no operation acts on\<close>

lemma bit_flip_bit_other: "q \<noteq> t \<Longrightarrow> bit (flip_bit t (i::nat)) q = bit i q"
  by (simp add: bit_flip_bit_iff)

lemma bit_imp_pos: "bit (i::nat) q \<Longrightarrow> 0 < i"
  by (cases "i = 0") auto

lemma qubit_is_zero_ket0: "qubit_is_zero q (ket 0)"
  by (auto simp: qubit_is_zero_def ket_def)

lemma apply_gate_frame:
  assumes "q \<notin> set (gate_qubits g)" and "apply_gate n g \<psi> = Inr \<psi>'"
    and "qubit_is_zero q \<psi>"
  shows "qubit_is_zero q \<psi>'"
proof (cases g)
  case (X t)
  with assms show ?thesis
    by (auto simp: qubit_is_zero_def apply_X_def bit_flip_bit_other split: if_splits)
next
  case (H t)
  with assms show ?thesis
    by (auto simp: qubit_is_zero_def apply_H_def bit_flip_bit_other split: if_splits)
next
  case (CX c t)
  with assms show ?thesis
    by (auto simp: qubit_is_zero_def apply_CX_def bit_flip_bit_other split: if_splits)
next
  case (CCX c1 c2 t)
  with assms show ?thesis
    by (auto simp: qubit_is_zero_def apply_CCX_def bit_flip_bit_other split: if_splits)
next
  case (Reset t)
  with assms show ?thesis
    by (auto simp: qubit_is_zero_def apply_Reset_def Let_def ket_def
        dest: bit_imp_pos split: if_splits)
next
  case (Measure a b)
  with assms show ?thesis
    by (auto split: if_splits)
qed

lemma apply_gate_valid:
  "valid_ops n c seen (g # gs) \<Longrightarrow> \<exists>\<psi>'. apply_gate n g \<psi> = Inr \<psi>'"
  by (cases g) auto

lemma run_ops_prefix_frame:
  assumes "valid_ops n c (map fst meas) gs"
    and "list_all (\<lambda>g. q \<notin> set (gate_qubits g)) gs"
    and "qubit_is_zero q \<psi>"
  shows "\<exists>\<psi>' meas'. run_ops en None n c (take j gs) \<psi> meas r = (Inr (\<psi>', meas'), r)
           \<and> qubit_is_zero q \<psi>'"
  using assms
proof (induction gs arbitrary: \<psi> meas j)
  case Nil
  then show ?case by simp
next
  case (Cons g gs)
  show ?case
  proof (cases j)
    case 0
    with Cons.prems show ?thesis by simp
  next
    case (Suc j')
    show ?thesis
    proof (cases "\<exists>a b. g = Measure a b")
      case True
      then obtain a b where g: "g = Measure a b" by blast
      with Cons.prems have v: "valid_ops n c (map fst (meas @ [(b, a)])) gs"
        and ok: "a < n" "b < c" "b \<notin> set (map fst meas)"
        by simp_all
      from Cons.prems have "list_all (\<lambda>g. q \<notin> set (gate_qubits g)) gs" by simp
      from Cons.IH[OF v this Cons.prems(3), of j'] g ok Suc show ?thesis by simp
    next
      case False
      from apply_gate_valid[OF Cons.prems(1)] obtain \<psi>1 where
        a: "apply_gate n g \<psi> = Inr \<psi>1" by blast
      from Cons.prems have "q \<notin> set (gate_qubits g)" by simp
      from apply_gate_frame[OF this a Cons.prems(3)] have z: "qubit_is_zero q \<psi>1" .
      from Cons.prems False have v: "valid_ops n c (map fst meas) gs"
        by (cases g) simp_all
      from Cons.prems have l: "list_all (\<lambda>g. q \<notin> set (gate_qubits g)) gs" by simp
      from False a have
        "run_ops en None n c (g # take j' gs) \<psi> meas r = run_ops en None n c (take j' gs) \<psi>1 meas r"
        by (cases g) simp_all
      with Cons.IH[OF v l z, of j'] Suc show ?thesis by simp
    qed
  qed
qed

lemma truth_table_circuit_valid: "valid_ops 5 1 [] (ops (truth_table_circuit inp))"
  by (cases inp) (simp add: truth_table_circuit_eq prep_ops_def kill_ops_def)

lemma truth_table_circuit_avoids_ancilla:
  "list_all (\<lambda>g. 3 \<notin> set (gate_qubits g)) (ops (truth_table_circuit inp))"
  by (cases inp) (simp add: truth_table_circuit_eq prep_ops_def kill_ops_def)

text \<open>C9: no operation of the circuit returned by \<open>build_reversible_kill_circuit\<close> acts
  on qubit 3, and no operation of the circuit the truth-table driver runs (preparation,
  kill circuit, measurement) does, for any inputs; so after every prefix of that circuit,
  run from \<open>|0\<rangle>\<close> without noise, the run has succeeded and qubit 3 is still in state
  \<open>|0\<rangle>\<close>.\<close>

theorem ancilla_untouched:
  "list_all (\<lambda>g. 3 \<notin> set (gate_qubits g)) (ops (fst build_reversible_kill_circuit)) \<and>
   list_all (\<lambda>g. 3 \<notin> set (gate_qubits g)) (ops (truth_table_circuit (m, t, g))) \<and>
   (\<exists>\<psi> meas. run_ops en None 5 1 (take j (ops (truth_table_circuit (m, t, g)))) (ket 0) [] r
                 = (Inr (\<psi>, meas), r) \<and> qubit_is_zero 3 \<psi>)"
proof (intro conjI)
  show "list_all (\<lambda>g. 3 \<notin> set (gate_qubits g)) (ops (fst build_reversible_kill_circuit))"
    by (simp add: build_reversible_kill_circuit_def QuantumCircuit_def append_op_def)
  show "list_all (\<lambda>g. 3 \<notin> set (gate_qubits g)) (ops (truth_table_circuit (m, t, g)))"
    by (rule truth_table_circuit_avoids_ancilla)
  have v: "valid_ops 5 1 (map fst ([] :: (nat \<times> nat) list)) (ops (truth_table_circuit (m, t, g)))"
    using truth_table_circuit_valid[of "(m, t, g)"] by simp
  show "\<exists>\<psi> meas. run_ops en None 5 1 (take j (ops (truth_table_circuit (m, t, g)))) (ket 0) [] r
                 = (Inr (\<psi>, meas), r) \<and> qubit_is_zero 3 \<psi>"
    by (rule run_ops_prefix_frame[OF v truth_table_circuit_avoids_ancilla qubit_is_zero_ket0])
qed

theorem ancilla_untouched_witness:
  "length (ops (truth_table_circuit (1, 1, 1))) = 11 \<and>
   bit (8::nat) 3 \<and>
   list_all (\<lambda>g. 3 \<notin> set (gate_qubits g)) (ops (fst build_reversible_kill_circuit)) \<and>
   list_all (\<lambda>g. 3 \<notin> set (gate_qubits g)) (ops (truth_table_circuit (1, 1, 1))) \<and>
   (\<exists>\<psi> meas. run_ops ideal_engine None 5 1 (take 11 (ops (truth_table_circuit (1, 1, 1))))
                   (ket 0) [] zero_rng = (Inr (\<psi>, meas), zero_rng) \<and> qubit_is_zero 3 \<psi>)"
proof -
  have a: "length (ops (truth_table_circuit (1, 1, 1))) = 11"
    by (simp add: truth_table_circuit_eq prep_ops_def kill_ops_def)
  have b: "bit (8::nat) 3" by (simp add: bit_iff_odd)
  show ?thesis
    by (rule conjI[OF a conjI[OF b ancilla_untouched[of 1 1 1 ideal_engine 11 zero_rng]]])
qed

section \<open>Runs without a noise model\<close>

lemma run_ops_None_engine:
  "run_ops en None n c gs \<psi> meas r = run_ops en' None n c gs \<psi> meas r"
proof (induction gs arbitrary: \<psi> meas)
  case Nil
  then show ?case by simp
next
  case (Cons g gs)
  then show ?case by (cases g) (simp_all split: sum.splits)
qed

lemma one_shot_None_engine:
  "rc_noise_model call = None \<Longrightarrow> one_shot en call r = one_shot en' call r"
  by (simp add: one_shot_def Let_def run_ops_None_engine[of en _ _ _ _ _ _ en']
      split: prod.splits sum.splits)

lemma shots_loop_None_engine:
  "rc_noise_model call = None \<Longrightarrow> shots_loop en call k acc r = shots_loop en' call k acc r"
proof (induction k arbitrary: acc r)
  case 0
  then show ?case by simp
next
  case (Suc k)
  then show ?case by (simp add: one_shot_None_engine[of call en _ en'] split: prod.splits sum.splits)
qed

lemma simulator_None_engine:
  "rc_noise_model call = None \<Longrightarrow> rc_seed_simulator call = None \<Longrightarrow>
   simulator en call r = simulator en' call r"
  by (simp add: simulator_def shots_loop_None_engine[of call en _ _ _ en'])

lemma run_ops_valid:
  assumes "valid_ops n c (map fst meas) gs"
  shows "\<exists>\<psi>' meas'. run_ops en None n c gs \<psi> meas r = (Inr (\<psi>', meas'), r)"
  using assms
proof (induction gs arbitrary: \<psi> meas)
  case Nil
  then show ?case by simp
next
  case (Cons g gs)
  show ?case
  proof (cases "\<exists>a b. g = Measure a b")
    case True
    then obtain a b where g: "g = Measure a b" by blast
    with Cons.prems have v: "valid_ops n c (map fst (meas @ [(b, a)])) gs"
      and ok: "a < n" "b < c" "b \<notin> set (map fst meas)"
      by simp_all
    from Cons.IH[OF v] g ok show ?thesis by simp
  next
    case False
    from apply_gate_valid[OF Cons.prems] obtain \<psi>1 where
      a: "apply_gate n g \<psi> = Inr \<psi>1" by blast
    from Cons.prems False have v: "valid_ops n c (map fst meas) gs"
      by (cases g) simp_all
    from False a have
      "run_ops en None n c (g # gs) \<psi> meas r = run_ops en None n c gs \<psi>1 meas r"
      by (cases g) simp_all
    with Cons.IH[OF v] show ?thesis by simp
  qed
qed

lemma one_shot_valid:
  assumes "rc_noise_model call = None"
    and "valid_ops (num_qubits (rc_circuit call)) (num_clbits (rc_circuit call)) []
           (ops (rc_circuit call))"
  shows "\<exists>key. one_shot en call r = (Inr key, r\<lparr>pos := Suc (pos r)\<rparr>)"
proof -
  have v: "valid_ops (num_qubits (rc_circuit call)) (num_clbits (rc_circuit call))
             (map fst ([] :: (nat \<times> nat) list)) (ops (rc_circuit call))"
    using assms(2) by simp
  from run_ops_valid[OF v, of en "ket 0" r] obtain \<psi>' meas' where
    "run_ops en None (num_qubits (rc_circuit call)) (num_clbits (rc_circuit call))
       (ops (rc_circuit call)) (ket 0) [] r = (Inr (\<psi>', meas'), r)"
    by blast
  with assms(1) show ?thesis
    by (simp add: one_shot_def next_draw_def Let_def)
qed

lemma shots_loop_valid:
  assumes "rc_noise_model call = None"
    and "valid_ops (num_qubits (rc_circuit call)) (num_clbits (rc_circuit call)) []
           (ops (rc_circuit call))"
  shows "\<exists>cnts. shots_loop en call k acc r = (Inr cnts, r\<lparr>pos := pos r + k\<rparr>)"
proof (induction k arbitrary: acc r)
  case 0
  then show ?case by simp
next
  case (Suc k)
  from one_shot_valid[OF assms, of en r] obtain key where
    o: "one_shot en call r = (Inr key, r\<lparr>pos := Suc (pos r)\<rparr>)" by blast
  from Suc[of "tally key acc" "r\<lparr>pos := Suc (pos r)\<rparr>"] o show ?case by simp
qed

lemma superposition_circuit_valid: "valid_ops 5 5 [] (ops superposition_circuit)"
  by (simp add: superposition_circuit_eq kill_ops_def)

text \<open>C6: with \<open>noisy=False\<close> the noise model argument of \<open>superposition_counts\<close> does not
  reach the simulator: the call it makes is the call made with no noise model, whatever
  the argument is, so any simulator answers both alike from the same random state. On
  the engine of the specification a call without a noise model does not consult the
  noise channels (the result is the same for any two engines, whatever their channels
  are) and draws from the random source exactly once per shot, for the final sampling:
  the 4096 shots succeed and leave the source 4096 draws further.\<close>

theorem superposition_without_noise:
  "superposition_call False nm = superposition_call False None \<and>
   rc_noise_model (superposition_call False nm) = None \<and>
   superposition_counts backend False nm s = superposition_counts backend False None s \<and>
   superposition_counts (simulator en) False nm r
     = superposition_counts (simulator en') False None r \<and>
   (\<exists>cnts. superposition_counts (simulator en) False nm r
             = (Inr cnts, r\<lparr>pos := pos r + 4096\<rparr>))"
proof (intro conjI)
  show c: "superposition_call False nm = superposition_call False None"
    by (simp add: superposition_call_def)
  show n: "rc_noise_model (superposition_call False nm) = None"
    by (simp add: superposition_call_def)
  show "superposition_counts backend False nm s = superposition_counts backend False None s"
    by (simp add: superposition_counts_def c)
  have sd: "rc_seed_simulator (superposition_call False nm) = None"
    by (simp add: superposition_call_def)
  show "superposition_counts (simulator en) False nm r
     = superposition_counts (simulator en') False None r"
    unfolding superposition_counts_def c[symmetric]
    by (rule simulator_None_engine[OF n sd])
  have v: "valid_ops (num_qubits (rc_circuit (superposition_call False nm)))
             (num_clbits (rc_circuit (superposition_call False nm))) []
             (ops (rc_circuit (superposition_call False nm)))"
    using superposition_circuit_valid
    by (simp add: superposition_call_def transpile_def superposition_circuit_eq)
  from shots_loop_valid[OF n v, of en 4096 "[]" r]
  show "\<exists>cnts. superposition_counts (simulator en) False nm r
             = (Inr cnts, r\<lparr>pos := pos r + 4096\<rparr>)"
    by (simp add: superposition_counts_def simulator_def sd)
       (simp add: superposition_call_def)
qed

end
